theory Spec2Isabelle
  imports Complex_Main "HOL-Library.AList" "HOL-Library.Sublist"
begin

section \<open>Python values and the operations the handlers use on them\<close>

text \<open>
  The handlers of \<^verbatim>\<open>main.py\<close> work on the values \<^verbatim>\<open>json.loads\<close> returns and on the
  API Gateway event, itself such a value. A Python float is a double: a finite one has a
  rational value, and Python compares ints and floats by value.
\<close>

datatype pyfloat = Finite rat | PosInf | NegInf | NaN

datatype json =
    JNull
  | JBool bool
  | JInt int
  | JFloat pyfloat
  | JStr string
  | JArr "json list"
  | JObj "(string \<times> json) list"

type_synonym pydict = "(string \<times> json) list"

text \<open>
  The exceptions the code distinguishes. \<open>JSONDecodeError\<close> is a subclass of
  \<open>ValueError\<close> in Python, and both carry a message; \<open>OtherException\<close> stands for any
  exception that is none of the others.
\<close>

datatype exn =
    KeyError
  | TypeError
  | AttributeError
  | ValueError string
  | JSONDecodeError string
  | ClientError
  | OtherException

text \<open>\<^verbatim>\<open>obj[key]\<close> with a string key: only a dict can be subscripted by a string.\<close>

fun getitem :: "json \<Rightarrow> string \<Rightarrow> exn + json" where
  "getitem (JObj d) k = (case map_of d k of Some x \<Rightarrow> Inr x | None \<Rightarrow> Inl KeyError)"
| "getitem v k = Inl TypeError"

text \<open>\<^verbatim>\<open>key in obj\<close> with a string key: dict membership, list membership, substring.\<close>

fun is_substring :: "string \<Rightarrow> string \<Rightarrow> bool" where
  "is_substring k [] = (k = [])"
| "is_substring k (c # s) = (prefix k (c # s) \<or> is_substring k s)"

fun contains :: "string \<Rightarrow> json \<Rightarrow> exn + bool" where
  "contains k (JObj d) = Inr (k \<in> set (map fst d))"
| "contains k (JArr xs) = Inr (JStr k \<in> set xs)"
| "contains k (JStr s) = Inr (is_substring k s)"
| "contains k v = Inl TypeError"

text \<open>Truth value of a Python object, as \<^verbatim>\<open>if x:\<close>, \<^verbatim>\<open>not x\<close> and \<^verbatim>\<open>x or y\<close> take it.\<close>

fun truthy :: "json \<Rightarrow> bool" where
  "truthy JNull = False"
| "truthy (JBool b) = b"
| "truthy (JInt i) = (i \<noteq> 0)"
| "truthy (JFloat f) = (f \<noteq> Finite 0)"
| "truthy (JStr s) = (s \<noteq> [])"
| "truthy (JArr xs) = (xs \<noteq> [])"
| "truthy (JObj d) = (d \<noteq> [])"

text \<open>
  \<^verbatim>\<open>isinstance(value, (int, float))\<close>: \<open>bool\<close> is a subclass of \<open>int\<close>, with
  \<open>True == 1\<close> and \<open>False == 0\<close>.
\<close>

datatype pynum = PInt int | PFloat pyfloat

fun as_number :: "json \<Rightarrow> pynum option" where
  "as_number (JBool b) = Some (PInt (if b then 1 else 0))"
| "as_number (JInt i) = Some (PInt i)"
| "as_number (JFloat f) = Some (PFloat f)"
| "as_number v = None"

text \<open>Comparison of a number with an int literal; every comparison with NaN is false.\<close>

fun num_less :: "pynum \<Rightarrow> int \<Rightarrow> bool" where
  "num_less (PInt i) n = (i < n)"
| "num_less (PFloat (Finite q)) n = (q < of_int n)"
| "num_less (PFloat NegInf) n = True"
| "num_less (PFloat PosInf) n = False"
| "num_less (PFloat NaN) n = False"

fun num_le :: "pynum \<Rightarrow> int \<Rightarrow> bool" where
  "num_le (PInt i) n = (i \<le> n)"
| "num_le (PFloat (Finite q)) n = (q \<le> of_int n)"
| "num_le (PFloat NegInf) n = True"
| "num_le (PFloat PosInf) n = False"
| "num_le (PFloat NaN) n = False"

fun num_greater :: "pynum \<Rightarrow> int \<Rightarrow> bool" where
  "num_greater (PInt i) n = (i > n)"
| "num_greater (PFloat (Finite q)) n = (q > of_int n)"
| "num_greater (PFloat NegInf) n = False"
| "num_greater (PFloat PosInf) n = True"
| "num_greater (PFloat NaN) n = False"

text \<open>
  \<^verbatim>\<open>x == y\<close>: numbers (and booleans) compare by value, lists elementwise, dicts
  by their keys whatever the order, and values of different kinds are unequal.
\<close>

fun num_eq :: "pynum \<Rightarrow> pynum \<Rightarrow> bool" where
  "num_eq (PInt i) (PInt j) = (i = j)"
| "num_eq (PInt i) (PFloat (Finite q)) = (of_int i = q)"
| "num_eq (PFloat (Finite q)) (PInt i) = (of_int i = q)"
| "num_eq (PFloat NaN) y = False"
| "num_eq x (PFloat NaN) = False"
| "num_eq (PFloat x) (PFloat y) = (x = y)"
| "num_eq x y = False"

fun py_eq :: "json \<Rightarrow> json \<Rightarrow> bool" where
  "py_eq JNull JNull = True"
| "py_eq (JStr a) (JStr b) = (a = b)"
| "py_eq (JArr xs) (JArr ys) = list_all2 py_eq xs ys"
| "py_eq (JObj d) (JObj e) =
     (length d = length e \<and>
      (\<forall>(k, v) \<in> set d. case map_of e k of None \<Rightarrow> False | Some w \<Rightarrow> py_eq v w))"
| "py_eq x y =
     (case (as_number x, as_number y) of (Some m, Some n) \<Rightarrow> num_eq m n | _ \<Rightarrow> False)"

text \<open>\<^verbatim>\<open>s.replace('.jpg', '_thumb.jpg')\<close>: every occurrence, left to right.\<close>

fun replace_jpg :: "string \<Rightarrow> string" where
  "replace_jpg [] = []"
| "replace_jpg (c # s) =
     (if prefix ''.jpg'' (c # s) then ''_thumb.jpg'' @ replace_jpg (drop 3 s)
      else c # replace_jpg s)"

subsection \<open>Library functions\<close>

text \<open>
  Functions of the Python standard library whose result the handlers only pass on are
  parameters of the model: \<^verbatim>\<open>json.loads\<close> on a string (\<open>None\<close> when it raises
  \<open>JSONDecodeError\<close>), \<^verbatim>\<open>str()\<close> as an f-string applies it, \<^verbatim>\<open>repr\<close> of a float as
  \<^verbatim>\<open>json.dumps\<close> prints it, and the pair \<^verbatim>\<open>base64.b64decode(c).decode()\<close> /
  \<^verbatim>\<open>base64.b64encode(s.encode()).decode()\<close> of the cart cursor.
\<close>

record pylib =
  json_loads :: "string \<Rightarrow> json option"
  py_str :: "json \<Rightarrow> string"
  float_repr :: "pyfloat \<Rightarrow> string"
  b64decode_str :: "string \<Rightarrow> exn + string"
  b64encode_str :: "string \<Rightarrow> string"

text \<open>
  \<^verbatim>\<open>json.dumps\<close> with its defaults: separators \<^verbatim>\<open>", "\<close> and \<^verbatim>\<open>": "\<close>, keys in
  insertion order, \<^verbatim>\<open>ensure_ascii\<close> escaping of strings.
\<close>

definition hex_digit :: "nat \<Rightarrow> char" where
  "hex_digit n = (''0123456789abcdef'' ! (n mod 16))"

definition decimal_digit :: "nat \<Rightarrow> char" where
  "decimal_digit n = (''0123456789'' ! (n mod 10))"

definition escape_char :: "char \<Rightarrow> string" where
  "escape_char c =
     (if c = CHR 0x22 then [CHR 0x5C, CHR 0x22]
      else if c = CHR 0x5C then [CHR 0x5C, CHR 0x5C]
      else if c = CHR 0x0A then [CHR 0x5C, CHR ''n'']
      else if c = CHR 0x0D then [CHR 0x5C, CHR ''r'']
      else if c = CHR 0x09 then [CHR 0x5C, CHR ''t'']
      else if c = CHR 0x08 then [CHR 0x5C, CHR ''b'']
      else if c = CHR 0x0C then [CHR 0x5C, CHR ''f'']
      else if of_char c < (0x20::nat) \<or> of_char c > (0x7E::nat)
        then [CHR 0x5C, CHR ''u'', CHR ''0'', CHR ''0'',
              hex_digit (of_char c div 16), hex_digit (of_char c)]
      else [c])"

definition encode_basestring_ascii :: "string \<Rightarrow> string" where
  "encode_basestring_ascii s = [CHR 0x22] @ concat (map escape_char s) @ [CHR 0x22]"

fun digits :: "nat \<Rightarrow> string" where
  "digits n = (if n < 10 then [decimal_digit n] else digits (n div 10) @ [decimal_digit n])"

declare digits.simps [simp del]

definition int_repr :: "int \<Rightarrow> string" where
  "int_repr i = (if i < 0 then CHR ''-'' # digits (nat (- i)) else digits (nat i))"

fun join :: "string \<Rightarrow> string list \<Rightarrow> string" where
  "join sep [] = []"
| "join sep [x] = x"
| "join sep (x # y # ys) = x @ sep @ join sep (y # ys)"

fun json_dumps :: "pylib \<Rightarrow> json \<Rightarrow> string" where
  "json_dumps L JNull = ''null''"
| "json_dumps L (JBool b) = (if b then ''true'' else ''false'')"
| "json_dumps L (JInt i) = int_repr i"
| "json_dumps L (JFloat f) = float_repr L f"
| "json_dumps L (JStr s) = encode_basestring_ascii s"
| "json_dumps L (JArr xs) = ''['' @ join '', '' (map (json_dumps L) xs) @ '']''"
| "json_dumps L (JObj d) =
     ''{'' @ join '', '' (map (\<lambda>(k, v). encode_basestring_ascii k @ '': '' @ json_dumps L v) d) @ ''}''"


section \<open>The record store\<close>

text \<open>
  The three DynamoDB tables. An item is a dict of attributes; a table maps the values of its
  key attributes to the item. \<^verbatim>\<open>put_item\<close> replaces the item under its key, and
  \<^verbatim>\<open>update_item\<close> with a \<open>SET\<close> expression evaluates every action against the item as it
  was (the key attributes alone when there was none) and assigns the results.
\<close>

datatype table = Profiles | CartItems | Fits

text \<open>
  Modelled from the spec: the key attributes of each table, which the source only shows in
  the \<open>Key\<close> arguments of its calls (cart items and fits) and the spec gives for profiles
  (one record per user, keyed by the owning user identifier).
\<close>

fun key_schema :: "table \<Rightarrow> string list" where
  "key_schema Profiles = [''user_id'']"
| "key_schema CartItems = [''user_id'', ''item_key'']"
| "key_schema Fits = [''fitId'']"

type_synonym store = "table \<Rightarrow> json option list \<rightharpoonup> pydict"

definition key_of :: "table \<Rightarrow> pydict \<Rightarrow> json option list" where
  "key_of t d = map (map_of d) (key_schema t)"

datatype setexpr = Val json | IfNotExists string json

datatype dbwrite =
    PutItem table pydict
  | UpdateItem table pydict "(string \<times> setexpr) list"

definition put_item :: "table \<Rightarrow> pydict \<Rightarrow> store \<Rightarrow> store" where
  "put_item t item s = s(t := (s t)(key_of t item \<mapsto> item))"

fun eval_set :: "pydict \<Rightarrow> setexpr \<Rightarrow> json" where
  "eval_set old (Val v) = v"
| "eval_set old (IfNotExists a v) = (case map_of old a of Some x \<Rightarrow> x | None \<Rightarrow> v)"

definition assign_all :: "pydict \<Rightarrow> (string \<times> json) list \<Rightarrow> pydict" where
  "assign_all d kvs = foldl (\<lambda>acc (k, v). AList.update k v acc) d kvs"

definition update_item :: "table \<Rightarrow> pydict \<Rightarrow> (string \<times> setexpr) list \<Rightarrow> store \<Rightarrow> store" where
  "update_item t k actions s =
     (let old = (case s t (key_of t k) of Some item \<Rightarrow> item | None \<Rightarrow> k);
          new = assign_all old (map (\<lambda>(a, e). (a, eval_set old e)) actions)
      in s(t := (s t)(key_of t k \<mapsto> new)))"

fun apply_write :: "dbwrite \<Rightarrow> store \<Rightarrow> store" where
  "apply_write (PutItem t item) s = put_item t item s"
| "apply_write (UpdateItem t k actions) s = update_item t k actions s"

text \<open>The store after the writes a handler performed, in the order it performed them.\<close>

definition run :: "store \<Rightarrow> dbwrite list \<Rightarrow> store" where
  "run s ws = foldl (\<lambda>acc w. apply_write w acc) s ws"

section \<open>What a request gets from outside\<close>

text \<open>
  Everything a handler obtains from its surroundings during one request: the UUID it draws,
  the clock (the answer to the k-th call of \<^verbatim>\<open>get_current_timestamp\<close>), whether the k-th
  call to the record store raises (a call that raises changes nothing), the presigned URL the
  object store issues for a method and a key, the pages the store's query returns, the
  answer of the token endpoint, and the configured OAuth domain and client id.
\<close>

record env =
  uuid4 :: string
  now :: "nat \<Rightarrow> string"
  store_fault :: "nat \<Rightarrow> exn option"
  presigned_url :: "string \<Rightarrow> json \<Rightarrow> exn + string"
  query_cart :: "json \<Rightarrow> json option \<Rightarrow> exn + (json list option \<times> json option)"
  query_fits :: "json \<Rightarrow> exn + json list option"
  token_endpoint :: "string \<Rightarrow> pydict \<Rightarrow> exn + (int \<times> string)"
  cognito_domain :: json
  cognito_client_id :: json

section \<open>Shared utilities\<close>

record response =
  statusCode :: int
  headers :: "(string \<times> string) list"
  body :: string

definition default_headers :: "(string \<times> string) list" where
  "default_headers =
     [(''Content-Type'', ''application/json''),
      (''Access-Control-Allow-Origin'', ''*''),
      (''Access-Control-Allow-Headers'', ''Content-Type,Authorization''),
      (''Access-Control-Allow-Methods'', ''GET,POST,PUT,DELETE,OPTIONS'')]"

definition create_response ::
  "pylib \<Rightarrow> int \<Rightarrow> json \<Rightarrow> (string \<times> string) list option \<Rightarrow> response" where
  "create_response L status_code b hdrs =
     \<lparr>statusCode = status_code,
      headers = (case hdrs of
                   None \<Rightarrow> default_headers
                 | Some h \<Rightarrow> if h \<noteq> [] then foldl (\<lambda>acc (k, v). AList.update k v acc) default_headers h
                            else default_headers),
      body = json_dumps L b\<rparr>"

definition create_error_response ::
  "pylib \<Rightarrow> int \<Rightarrow> string \<Rightarrow> string \<Rightarrow> json option \<Rightarrow> response" where
  "create_error_response L status_code error_type message details =
     create_response L status_code
       (JObj ([(''error'', JStr error_type), (''message'', JStr message)] @
              (case details of
                 None \<Rightarrow> []
               | Some d \<Rightarrow> if truthy d then [(''details'', d)] else [])))
       None"

text \<open>
  \<^verbatim>\<open>get_user_id\<close>: four subscripts in a row; a \<open>KeyError\<close> from any of them becomes the
  \<open>ValueError\<close>, any other exception leaves the function as it is.
\<close>

definition get_user_id :: "pydict \<Rightarrow> exn + json" where
  "get_user_id event =
     (case (case getitem (JObj event) ''requestContext'' of
              Inl e \<Rightarrow> Inl e
            | Inr rc \<Rightarrow>
                (case getitem rc ''authorizer'' of
                   Inl e \<Rightarrow> Inl e
                 | Inr au \<Rightarrow>
                     (case getitem au ''claims'' of
                        Inl e \<Rightarrow> Inl e
                      | Inr cl \<Rightarrow> getitem cl ''sub''))) of
        Inl KeyError \<Rightarrow> Inl (ValueError ''User ID not found in request context'')
      | r \<Rightarrow> r)"

text \<open>
  The three \<open>except\<close> clauses that end every authenticated handler, in their order:
  \<open>ValueError\<close> (and its subclasses) gives 401 with the exception's message,
  \<open>ClientError\<close> the handler's own 500, anything else the generic 500.
\<close>

definition handle_exception :: "pylib \<Rightarrow> string \<Rightarrow> string \<Rightarrow> exn \<Rightarrow> response" where
  "handle_exception L client_code client_message e =
     (case e of
        ValueError m \<Rightarrow> create_error_response L 401 ''UNAUTHORIZED'' m None
      | JSONDecodeError m \<Rightarrow> create_error_response L 401 ''UNAUTHORIZED'' m None
      | ClientError \<Rightarrow> create_error_response L 500 client_code client_message None
      | _ \<Rightarrow> create_error_response L 500 ''INTERNAL_ERROR'' ''An unexpected error occurred'' None)"

text \<open>
  The part of a handler before its first effect either raises, returns a response early,
  or goes on with a value.
\<close>

type_synonym 'a step = "exn + (response + 'a)"

definition and_then :: "'a step \<Rightarrow> ('a \<Rightarrow> 'b step) \<Rightarrow> 'b step" where
  "and_then m f = (case m of Inl e \<Rightarrow> Inl e | Inr (Inl r) \<Rightarrow> Inr (Inl r) | Inr (Inr x) \<Rightarrow> f x)"

definition evaluated :: "exn + 'a \<Rightarrow> 'a step" where
  "evaluated m = (case m of Inl e \<Rightarrow> Inl e | Inr x \<Rightarrow> Inr (Inr x))"

definition returning :: "response \<Rightarrow> 'a step" where
  "returning r = Inr (Inl r)"

definition continue :: "'a \<Rightarrow> 'a step" where
  "continue x = Inr (Inr x)"

text \<open>
  \<^verbatim>\<open>json.loads(event['body'])\<close> inside its own \<open>try\<close>: the subscript may raise
  \<open>KeyError\<close>, which that \<open>try\<close> does not catch; \<open>json.loads\<close> raises \<open>TypeError\<close> on
  anything but a string and \<open>JSONDecodeError\<close> on a string that is not JSON.
\<close>

definition parse_body :: "pylib \<Rightarrow> pydict \<Rightarrow> json step" where
  "parse_body L event =
     and_then (evaluated (getitem (JObj event) ''body'')) (\<lambda>raw.
       case raw of
         JStr text \<Rightarrow>
           (case json_loads L text of
              Some b \<Rightarrow> continue b
            | None \<Rightarrow> returning (create_error_response L 400 ''INVALID_JSON''
                                   ''Request body must be valid JSON'' None))
       | _ \<Rightarrow> returning (create_error_response L 400 ''INVALID_JSON''
                            ''Request body must be valid JSON'' None))"

text \<open>\<^verbatim>\<open>event.get('queryStringParameters') or {}\<close>, and \<^verbatim>\<open>d.get(k)\<close> on the result.\<close>

definition query_string_parameters :: "pydict \<Rightarrow> json" where
  "query_string_parameters event =
     (case map_of event ''queryStringParameters'' of
        None \<Rightarrow> JObj []
      | Some v \<Rightarrow> if truthy v then v else JObj [])"

fun dict_get :: "json \<Rightarrow> string \<Rightarrow> exn + json" where
  "dict_get (JObj d) k = Inr (case map_of d k of Some v \<Rightarrow> v | None \<Rightarrow> JNull)"
| "dict_get v k = Inl AttributeError"

text \<open>A value inside an f-string: a string stands for itself, anything else goes through \<^verbatim>\<open>str()\<close>.\<close>

fun format_value :: "pylib \<Rightarrow> json \<Rightarrow> string" where
  "format_value L (JStr s) = s"
| "format_value L v = py_str L v"

text \<open>The values of a dict literal \<^verbatim>\<open>{k: body[k], ...}\<close>, evaluated in order.\<close>

fun pick :: "json \<Rightarrow> string list \<Rightarrow> exn + pydict" where
  "pick b [] = Inr []"
| "pick b (k # ks) =
     (case getitem b k of
        Inl e \<Rightarrow> Inl e
      | Inr v \<Rightarrow> (case pick b ks of Inl e \<Rightarrow> Inl e | Inr d \<Rightarrow> Inr ((k, v) # d)))"

section \<open>The handlers\<close>

subsection \<open>GET /upload-url\<close>

definition upload_url_handler :: "pylib \<Rightarrow> env \<Rightarrow> pydict \<Rightarrow> response" where
  "upload_url_handler L E event =
     (case and_then (evaluated (get_user_id event)) (\<lambda>user_id.
           and_then (evaluated (dict_get (query_string_parameters event) ''type'')) (\<lambda>image_type.
             if \<not> truthy image_type \<or> image_type \<notin> set [JStr ''face'', JStr ''body'', JStr ''other'']
             then returning (create_error_response L 400 ''INVALID_PARAMETER''
                    ''type parameter must be one of: face, body, other'' None)
             else
               let object_key = ''uploads/'' @ format_value L user_id @ ''/'' @
                                format_value L image_type @ ''/'' @ uuid4 E @ ''.jpg''
               in and_then (evaluated (presigned_url E ''put_object'' (JStr object_key))) (\<lambda>url.
                    continue (create_response L 200
                      (JObj [(''url'', JStr url), (''key'', JStr object_key)]) None)))) of
        Inl e \<Rightarrow> handle_exception L ''S3_ERROR'' ''Failed to generate upload URL'' e
      | Inr (Inl r) \<Rightarrow> r
      | Inr (Inr r) \<Rightarrow> r)"

subsection \<open>POST /profile\<close>

definition invalid_measurement :: "json \<Rightarrow> bool" where
  "invalid_measurement v =
     (case as_number v of None \<Rightarrow> True | Some n \<Rightarrow> num_le n 0 \<or> num_greater n 300)"

definition required_measurements :: "string list" where
  "required_measurements =
     [''height_cm'', ''weight_kg'', ''chest_cm'', ''waist_cm'', ''hips_cm'', ''inseam_cm'']"

fun check_measurements :: "pylib \<Rightarrow> string list \<Rightarrow> json \<Rightarrow> unit step" where
  "check_measurements L [] b = continue ()"
| "check_measurements L (field # rest) b =
     and_then (evaluated (contains field b)) (\<lambda>present.
       if \<not> present
       then returning (create_error_response L 400 ''MISSING_FIELD''
              (''Required field missing: '' @ field) None)
       else and_then (evaluated (getitem b field)) (\<lambda>v.
         if invalid_measurement v
         then returning (create_error_response L 400 ''INVALID_VALUE''
                (field @ '' must be a positive number less than 300'') None)
         else check_measurements L rest b))"

definition profile_prepare :: "pylib \<Rightarrow> env \<Rightarrow> pydict \<Rightarrow> pydict step" where
  "profile_prepare L E event =
     and_then (evaluated (get_user_id event)) (\<lambda>user_id.
     and_then (parse_body L event) (\<lambda>b.
     and_then (check_measurements L required_measurements b) (\<lambda>_.
     and_then (evaluated (contains ''preferred_fit'' b)) (\<lambda>has_fit.
       if \<not> has_fit
       then returning (create_error_response L 400 ''MISSING_FIELD''
              ''Required field missing: preferred_fit'' None)
       else
     and_then (evaluated (pick b (required_measurements @ [''preferred_fit'']))) (\<lambda>vals.
       let profile_data = [(''user_id'', user_id)] @ vals @ [(''updatedAt'', JStr (now E 0))]
       in
     and_then (evaluated (contains ''avatar_key'' b)) (\<lambda>has_avatar.
       if has_avatar
       then and_then (evaluated (getitem b ''avatar_key'')) (\<lambda>avatar.
              continue (AList.update ''avatar_key'' avatar profile_data))
       else continue profile_data))))))"

definition profile_handler :: "pylib \<Rightarrow> env \<Rightarrow> pydict \<Rightarrow> response \<times> dbwrite list" where
  "profile_handler L E event =
     (case profile_prepare L E event of
        Inl e \<Rightarrow> (handle_exception L ''DYNAMODB_ERROR'' ''Failed to save profile'' e, [])
      | Inr (Inl r) \<Rightarrow> (r, [])
      | Inr (Inr profile_data) \<Rightarrow>
          (case store_fault E 0 of
             Some e \<Rightarrow> (handle_exception L ''DYNAMODB_ERROR'' ''Failed to save profile'' e, [])
           | None \<Rightarrow>
               (create_response L 200
                  (JObj [(''ok'', JBool True), (''profile'', JObj profile_data)]) None,
                [PutItem Profiles profile_data])))"

subsection \<open>POST /cart\<close>

definition cart_required_fields :: "string list" where
  "cart_required_fields =
     [''retailer'', ''productId'', ''title'', ''price_cents'', ''currency'',
      ''productUrl'', ''imageUrl'', ''selectedSize'', ''color'', ''category'']"

fun check_present :: "pylib \<Rightarrow> string list \<Rightarrow> json \<Rightarrow> unit step" where
  "check_present L [] b = continue ()"
| "check_present L (field # rest) b =
     and_then (evaluated (contains field b)) (\<lambda>present.
       if \<not> present
       then returning (create_error_response L 400 ''MISSING_FIELD''
              (''Required field missing: '' @ field) None)
       else check_present L rest b)"

definition invalid_price :: "json \<Rightarrow> bool" where
  "invalid_price v = (case as_number v of None \<Rightarrow> True | Some n \<Rightarrow> num_less n 0)"

definition cart_prepare ::
  "pylib \<Rightarrow> env \<Rightarrow> pydict \<Rightarrow> (pydict \<times> (string \<times> setexpr) list) step" where
  "cart_prepare L E event =
     and_then (evaluated (get_user_id event)) (\<lambda>user_id.
     and_then (parse_body L event) (\<lambda>b.
     and_then (check_present L cart_required_fields b) (\<lambda>_.
     and_then (evaluated (getitem b ''price_cents'')) (\<lambda>price.
       if invalid_price price
       then returning (create_error_response L 400 ''INVALID_VALUE''
              ''price_cents must be a non-negative number'' None)
       else
     and_then (evaluated (getitem b ''retailer'')) (\<lambda>retailer.
     and_then (evaluated (getitem b ''productId'')) (\<lambda>product_id.
       let item_key = format_value L retailer @ ''#'' @ format_value L product_id;
           current_time = now E 0
       in
     and_then (evaluated (pick b cart_required_fields)) (\<lambda>vals.
       continue
         ([(''user_id'', user_id), (''item_key'', JStr item_key)],
          map (\<lambda>(k, v). (k, Val v)) vals @
          [(''updatedAt'', Val (JStr current_time)),
           (''addedAt'', IfNotExists ''addedAt'' (JStr current_time))]))))))))"

definition cart_post_handler :: "pylib \<Rightarrow> env \<Rightarrow> pydict \<Rightarrow> response \<times> dbwrite list" where
  "cart_post_handler L E event =
     (case cart_prepare L E event of
        Inl e \<Rightarrow> (handle_exception L ''DYNAMODB_ERROR'' ''Failed to save cart item'' e, [])
      | Inr (Inl r) \<Rightarrow> (r, [])
      | Inr (Inr (k, actions)) \<Rightarrow>
          (case store_fault E 0 of
             Some e \<Rightarrow> (handle_exception L ''DYNAMODB_ERROR'' ''Failed to save cart item'' e, [])
           | None \<Rightarrow>
               (create_response L 200 (JObj [(''ok'', JBool True)]) None,
                [UpdateItem CartItems k actions])))"

subsection \<open>GET /cart\<close>

text \<open>
  The cursor is decoded inside a \<open>try\<close> that catches every exception:
  \<^verbatim>\<open>json.loads(base64.b64decode(cursor).decode())\<close>.
\<close>

definition decode_cursor :: "pylib \<Rightarrow> json \<Rightarrow> exn + json" where
  "decode_cursor L cursor =
     (case cursor of
        JStr c \<Rightarrow>
          (case b64decode_str L c of
             Inl e \<Rightarrow> Inl e
           | Inr text \<Rightarrow>
               (case json_loads L text of
                  None \<Rightarrow> Inl (JSONDecodeError [])
                | Some v \<Rightarrow> Inr v))
      | _ \<Rightarrow> Inl TypeError)"

definition encode_cursor :: "pylib \<Rightarrow> json \<Rightarrow> string" where
  "encode_cursor L last_key = b64encode_str L (json_dumps L last_key)"

definition cart_get_handler :: "pylib \<Rightarrow> env \<Rightarrow> pydict \<Rightarrow> response" where
  "cart_get_handler L E event =
     (case and_then (evaluated (get_user_id event)) (\<lambda>user_id.
           and_then (evaluated (dict_get (query_string_parameters event) ''cursor'')) (\<lambda>cursor.
           and_then (if truthy cursor
                     then (case decode_cursor L cursor of
                             Inl e \<Rightarrow> returning (create_error_response L 400 ''INVALID_CURSOR''
                                                   ''Invalid pagination cursor'' None)
                           | Inr decoded \<Rightarrow> continue (Some decoded))
                     else continue None) (\<lambda>exclusive_start_key.
           and_then (evaluated (query_cart E user_id exclusive_start_key)) (\<lambda>(items, last_key).
             continue (create_response L 200
               (JObj [(''items'', JArr (case items of Some xs \<Rightarrow> xs | None \<Rightarrow> [])),
                      (''nextCursor'', (case last_key of
                                          Some k \<Rightarrow> JStr (encode_cursor L k)
                                        | None \<Rightarrow> JNull))]) None))))) of
        Inl e \<Rightarrow> handle_exception L ''DYNAMODB_ERROR'' ''Failed to retrieve cart items'' e
      | Inr (Inl r) \<Rightarrow> r
      | Inr (Inr r) \<Rightarrow> r)"

subsection \<open>POST /fit\<close>

fun check_items :: "pylib \<Rightarrow> json list \<Rightarrow> unit step" where
  "check_items L [] = continue ()"
| "check_items L (item # rest) =
     (case item of
        JObj d \<Rightarrow>
          if ''retailer'' \<notin> set (map fst d) \<or> ''productId'' \<notin> set (map fst d)
          then returning (create_error_response L 400 ''INVALID_ITEMS''
                 ''Each item must have retailer and productId'' None)
          else check_items L rest
      | _ \<Rightarrow> returning (create_error_response L 400 ''INVALID_ITEMS''
                 ''Each item must have retailer and productId'' None))"

definition fit_validate :: "pylib \<Rightarrow> json \<Rightarrow> (json \<times> json) step" where
  "fit_validate L b =
     and_then (evaluated (contains ''items'' b)) (\<lambda>has_items.
       if \<not> has_items
       then returning (create_error_response L 400 ''MISSING_FIELD'' ''items array is required'' None)
       else
     and_then (evaluated (getitem b ''items'')) (\<lambda>items.
       case items of
         JArr xs \<Rightarrow>
           and_then (evaluated (contains ''mode'' b)) (\<lambda>has_mode.
             if \<not> has_mode
             then returning (create_error_response L 400 ''INVALID_MODE''
                    ''mode must be MVP_COMPOSITE or BEDROCK'' None)
             else
           and_then (evaluated (getitem b ''mode'')) (\<lambda>mode.
             if mode \<notin> set [JStr ''MVP_COMPOSITE'', JStr ''BEDROCK'']
             then returning (create_error_response L 400 ''INVALID_MODE''
                    ''mode must be MVP_COMPOSITE or BEDROCK'' None)
             else and_then (check_items L xs) (\<lambda>_. continue (items, mode))))
       | _ \<Rightarrow> returning (create_error_response L 400 ''MISSING_FIELD''
                 ''items array is required'' None)))"

text \<open>
  Everything up to the first store call: the caller, the body, its validation and the
  record \<open>fit_data\<close> with status PENDING and the optional fields.
\<close>

definition fit_prepare :: "pylib \<Rightarrow> env \<Rightarrow> pydict \<Rightarrow> (json \<times> json \<times> pydict) step" where
  "fit_prepare L E event =
     and_then (evaluated (get_user_id event)) (\<lambda>user_id.
     and_then (parse_body L event) (\<lambda>b.
     and_then (fit_validate L b) (\<lambda>(items, mode).
       let fit_data =
             [(''fitId'', JStr (uuid4 E)),
              (''user_id'', user_id),
              (''items'', items),
              (''mode'', mode),
              (''status'', JStr ''PENDING''),
              (''createdAt'', JStr (now E 0)),
              (''updatedAt'', JStr (now E 1))]
       in
     and_then (evaluated (contains ''name'' b)) (\<lambda>has_name.
     and_then (if has_name
               then and_then (evaluated (getitem b ''name'')) (\<lambda>n.
                      continue (AList.update ''name'' n fit_data))
               else continue fit_data) (\<lambda>fit_data.
     and_then (evaluated (contains ''body_asset_key'' b)) (\<lambda>has_asset.
     and_then (if has_asset
               then and_then (evaluated (getitem b ''body_asset_key'')) (\<lambda>a.
                      continue (AList.update ''body_asset_key'' a fit_data))
               else continue fit_data) (\<lambda>fit_data.
       continue (user_id, mode, fit_data))))))))"

text \<open>
  The store calls of \<^verbatim>\<open>fit_create_handler\<close>: \<open>put_item\<close> (store call 0); for
  \<open>BEDROCK\<close> nothing more; for \<open>MVP_COMPOSITE\<close> (the only other mode that passes the
  validation) the update to READY (store call 1) inside a \<open>try\<close> whose \<open>except Exception\<close>
  performs the update to FAILED (store call 2). An exception of that last update leaves the
  inner \<open>try\<close> and reaches the handler's outer \<open>except\<close> clauses.
\<close>

definition fit_create_handler :: "pylib \<Rightarrow> env \<Rightarrow> pydict \<Rightarrow> response \<times> dbwrite list" where
  "fit_create_handler L E event =
     (case fit_prepare L E event of
        Inl e \<Rightarrow> (handle_exception L ''DYNAMODB_ERROR'' ''Failed to create fit job'' e, [])
      | Inr (Inl r) \<Rightarrow> (r, [])
      | Inr (Inr (user_id, mode, fit_data)) \<Rightarrow>
          (case store_fault E 0 of
             Some e \<Rightarrow> (handle_exception L ''DYNAMODB_ERROR'' ''Failed to create fit job'' e, [])
           | None \<Rightarrow>
               if mode = JStr ''BEDROCK''
               then (create_response L 201
                       (JObj [(''fitId'', JStr (uuid4 E)), (''status'', JStr ''PENDING'')]) None,
                     [PutItem Fits fit_data])
               else
                 let generated_key =
                       ''generated/'' @ format_value L user_id @ ''/'' @ uuid4 E @ ''.jpg''
                 in (case store_fault E 1 of
                       None \<Rightarrow>
                         (create_response L 201
                            (JObj [(''fitId'', JStr (uuid4 E)), (''status'', JStr ''READY'')]) None,
                          [PutItem Fits fit_data,
                           UpdateItem Fits [(''fitId'', JStr (uuid4 E))]
                             [(''status'', Val (JStr ''READY'')),
                              (''imageUrl'', Val (JStr generated_key)),
                              (''updatedAt'', Val (JStr (now E 2)))]])
                     | Some _ \<Rightarrow>
                         (case store_fault E 2 of
                            None \<Rightarrow>
                              (create_error_response L 500 ''GENERATION_FAILED''
                                 ''Failed to generate fit'' None,
                               [PutItem Fits fit_data,
                                UpdateItem Fits [(''fitId'', JStr (uuid4 E))]
                                  [(''status'', Val (JStr ''FAILED'')),
                                   (''updatedAt'', Val (JStr (now E 3)))]])
                          | Some e \<Rightarrow>
                              (handle_exception L ''DYNAMODB_ERROR'' ''Failed to create fit job'' e,
                               [PutItem Fits fit_data])))))"

subsection \<open>GET /fit/{fitId}\<close>

text \<open>
  The presigned download URL is requested inside a \<open>try\<close> that catches \<open>ClientError\<close>
  only and then goes on without the URL.
\<close>

definition add_image_url :: "env \<Rightarrow> pydict \<Rightarrow> pydict \<Rightarrow> exn + pydict" where
  "add_image_url E fit_item response_data =
     (case getitem (JObj fit_item) ''status'' of
        Inl e \<Rightarrow> Inl e
      | Inr st \<Rightarrow>
          if st = JStr ''READY'' \<and> ''imageUrl'' \<in> set (map fst fit_item)
          then (case getitem (JObj fit_item) ''imageUrl'' of
                  Inl e \<Rightarrow> Inl e
                | Inr k \<Rightarrow>
                    (case presigned_url E ''get_object'' k of
                       Inr url \<Rightarrow> Inr (AList.update ''imageUrl'' (JStr url) response_data)
                     | Inl ClientError \<Rightarrow> Inr response_data
                     | Inl e \<Rightarrow> Inl e))
          else Inr response_data)"

definition fit_get_handler :: "pylib \<Rightarrow> env \<Rightarrow> pydict \<Rightarrow> store \<Rightarrow> response" where
  "fit_get_handler L E event s =
     (case and_then (evaluated (get_user_id event)) (\<lambda>user_id.
           and_then (evaluated (getitem (JObj event) ''pathParameters'')) (\<lambda>path_parameters.
           and_then (evaluated (getitem path_parameters ''fitId'')) (\<lambda>fit_id.
             if \<not> truthy fit_id
             then returning (create_error_response L 400 ''MISSING_PARAMETER'' ''fitId is required'' None)
             else
           and_then (evaluated (case store_fault E 0 of
                                  Some e \<Rightarrow> Inl e
                                | None \<Rightarrow> Inr (s Fits (key_of Fits [(''fitId'', fit_id)])))) (\<lambda>found.
             case found of
               None \<Rightarrow> returning (create_error_response L 404 ''FIT_NOT_FOUND'' ''Fit not found'' None)
             | Some fit_item \<Rightarrow>
                 and_then (evaluated (getitem (JObj fit_item) ''user_id'')) (\<lambda>owner.
                   if \<not> py_eq owner user_id
                   then returning (create_error_response L 403 ''FORBIDDEN''
                          ''Access denied to this fit'' None)
                   else
                 and_then (evaluated (pick (JObj fit_item)
                            [''fitId'', ''status'', ''items'', ''createdAt'', ''updatedAt''])) (\<lambda>vals.
                   let response_data = vals @ [(''imageUrl'', JNull)] in
                 and_then (if ''name'' \<in> set (map fst fit_item)
                           then and_then (evaluated (getitem (JObj fit_item) ''name'')) (\<lambda>n.
                                  continue (AList.update ''name'' n response_data))
                           else continue response_data) (\<lambda>response_data.
                 and_then (evaluated (add_image_url E fit_item response_data)) (\<lambda>response_data.
                   continue (create_response L 200 (JObj response_data) None))))))))) of
        Inl e \<Rightarrow> handle_exception L ''DYNAMODB_ERROR'' ''Failed to retrieve fit'' e
      | Inr (Inl r) \<Rightarrow> r
      | Inr (Inr r) \<Rightarrow> r)"

subsection \<open>GET /fits\<close>

definition fit_summary :: "env \<Rightarrow> json \<Rightarrow> exn + pydict" where
  "fit_summary E item =
     (case pick item [''fitId'', ''createdAt'', ''status''] of
        Inl e \<Rightarrow> Inl e
      | Inr vals \<Rightarrow>
          (case contains ''name'' item of
             Inl e \<Rightarrow> Inl e
           | Inr has_name \<Rightarrow>
               (case (if has_name
                      then (case getitem item ''name'' of
                              Inl e \<Rightarrow> Inl e
                            | Inr n \<Rightarrow> Inr (AList.update ''name'' n (vals @ [(''thumbnailUrl'', JNull)])))
                      else Inr (vals @ [(''thumbnailUrl'', JNull)])) of
                  Inl e \<Rightarrow> Inl e
                | Inr summary \<Rightarrow>
                    (case getitem item ''status'' of
                       Inl e \<Rightarrow> Inl e
                     | Inr st \<Rightarrow>
                         (case contains ''imageUrl'' item of
                            Inl e \<Rightarrow> Inl e
                          | Inr has_image \<Rightarrow>
                              if st = JStr ''READY'' \<and> has_image
                              then (case getitem item ''imageUrl'' of
                                      Inr (JStr k) \<Rightarrow>
                                        (case presigned_url E ''get_object'' (JStr (replace_jpg k)) of
                                           Inr url \<Rightarrow>
                                             Inr (AList.update ''thumbnailUrl'' (JStr url) summary)
                                         | Inl ClientError \<Rightarrow> Inr summary
                                         | Inl e \<Rightarrow> Inl e)
                                    | Inr _ \<Rightarrow> Inl AttributeError
                                    | Inl e \<Rightarrow> Inl e)
                              else Inr summary)))))"

fun fit_summaries :: "env \<Rightarrow> json list \<Rightarrow> exn + json list" where
  "fit_summaries E [] = Inr []"
| "fit_summaries E (item # rest) =
     (case fit_summary E item of
        Inl e \<Rightarrow> Inl e
      | Inr summary \<Rightarrow>
          (case fit_summaries E rest of
             Inl e \<Rightarrow> Inl e
           | Inr fits \<Rightarrow> Inr (JObj summary # fits)))"

definition fits_list_handler :: "pylib \<Rightarrow> env \<Rightarrow> pydict \<Rightarrow> response" where
  "fits_list_handler L E event =
     (case and_then (evaluated (get_user_id event)) (\<lambda>user_id.
           and_then (evaluated (query_fits E user_id)) (\<lambda>items.
           and_then (evaluated (fit_summaries E (case items of Some xs \<Rightarrow> xs | None \<Rightarrow> []))) (\<lambda>fits.
             continue (create_response L 200 (JObj [(''fits'', JArr fits)]) None)))) of
        Inl e \<Rightarrow> handle_exception L ''DYNAMODB_ERROR'' ''Failed to retrieve fits'' e
      | Inr (Inl r) \<Rightarrow> r
      | Inr (Inr r) \<Rightarrow> r)"

subsection \<open>POST /token\<close>

text \<open>
  The token endpoint answers the form-encoded grant with a status and a text, which the
  handler parses and relays. Its \<open>except\<close> clauses are \<open>JSONDecodeError\<close>, then
  \<open>Exception\<close>; the caller's identity is not extracted.
\<close>

definition token_handler :: "pylib \<Rightarrow> env \<Rightarrow> pydict \<Rightarrow> response" where
  "token_handler L E event =
     (case and_then (parse_body L event) (\<lambda>b.
           and_then (check_present L [''code'', ''redirectUri'', ''codeVerifier''] b) (\<lambda>_.
           and_then (evaluated (getitem b ''code'')) (\<lambda>code.
           and_then (evaluated (getitem b ''redirectUri'')) (\<lambda>redirect_uri.
           and_then (evaluated (getitem b ''codeVerifier'')) (\<lambda>code_verifier.
             let token_data =
                   [(''grant_type'', JStr ''authorization_code''),
                    (''client_id'', cognito_client_id E),
                    (''code'', code),
                    (''redirect_uri'', redirect_uri),
                    (''code_verifier'', code_verifier)];
                 token_url = ''https://'' @ format_value L (cognito_domain E) @ ''/oauth2/token''
             in
           and_then (evaluated (token_endpoint E token_url token_data)) (\<lambda>(status, text).
             case json_loads L text of
               None \<Rightarrow> Inl (JSONDecodeError [])
             | Some response_data \<Rightarrow> continue (create_response L status response_data None))))))) of
        Inl (JSONDecodeError m) \<Rightarrow>
          create_error_response L 500 ''COGNITO_ERROR'' ''Invalid response from Cognito'' None
      | Inl e \<Rightarrow> create_error_response L 500 ''INTERNAL_ERROR'' ''Token exchange failed'' None
      | Inr (Inl r) \<Rightarrow> r
      | Inr (Inr r) \<Rightarrow> r)"

subsection \<open>The router\<close>

text \<open>
  \<^verbatim>\<open>lambda_handler\<close> reads the method and the resource, answers OPTIONS itself and
  dispatches the eight routes; its own \<open>except Exception\<close> answers a failure of the two
  subscripts (the handlers catch every exception themselves). The result is the response
  and the writes performed on the record store.
\<close>

definition lambda_handler :: "pylib \<Rightarrow> env \<Rightarrow> pydict \<Rightarrow> store \<Rightarrow> response \<times> dbwrite list" where
  "lambda_handler L E event s =
     (case getitem (JObj event) ''httpMethod'' of
        Inl e \<Rightarrow> (create_error_response L 500 ''INTERNAL_ERROR''
                   ''An unexpected internal error occurred'' None, [])
      | Inr method \<Rightarrow>
          (case getitem (JObj event) ''resource'' of
             Inl e \<Rightarrow> (create_error_response L 500 ''INTERNAL_ERROR''
                        ''An unexpected internal error occurred'' None, [])
           | Inr resource \<Rightarrow>
               if method = JStr ''OPTIONS'' then (create_response L 204 (JObj []) None, [])
               else if resource = JStr ''/upload-url'' \<and> method = JStr ''GET''
                 then (upload_url_handler L E event, [])
               else if resource = JStr ''/profile'' \<and> method = JStr ''POST''
                 then profile_handler L E event
               else if resource = JStr ''/cart'' \<and> method = JStr ''POST''
                 then cart_post_handler L E event
               else if resource = JStr ''/cart'' \<and> method = JStr ''GET''
                 then (cart_get_handler L E event, [])
               else if resource = JStr ''/fit'' \<and> method = JStr ''POST''
                 then fit_create_handler L E event
               else if resource = JStr ''/fit/{fitId}'' \<and> method = JStr ''GET''
                 then (fit_get_handler L E event s, [])
               else if resource = JStr ''/fits'' \<and> method = JStr ''GET''
                 then (fits_list_handler L E event, [])
               else if resource = JStr ''/token'' \<and> method = JStr ''POST''
                 then (token_handler L E event, [])
               else (create_error_response L 404 ''NOT_FOUND''
                       ''The requested resource was not found'' None, [])))"

section \<open>Inputs used in the examples\<close>

text \<open>
  A library that parses no text at all, and one whose \<open>json.loads\<close> parses exactly the
  text \<open>json.dumps\<close> prints for one value; an environment with a fixed UUID and clock and
  chosen store faults; an API Gateway event with a method, a resource and the claims of the
  authorizer.
\<close>

definition sample_lib :: pylib where
  "sample_lib =
     \<lparr>json_loads = (\<lambda>t. None),
      py_str = (\<lambda>v. ''?''),
      float_repr = (\<lambda>f. ''?''),
      b64decode_str = (\<lambda>c. Inl OtherException),
      b64encode_str = (\<lambda>t. ''?'')\<rparr>"

definition lib_for :: "json \<Rightarrow> pylib" where
  "lib_for v =
     sample_lib\<lparr>json_loads := (\<lambda>t. if t = json_dumps sample_lib v then Some v else None)\<rparr>"

definition sample_env :: "(nat \<Rightarrow> exn option) \<Rightarrow> env" where
  "sample_env faults =
     \<lparr>uuid4 = ''0b5e7a52-6c1d-4f0e-9a57-2f1f6c3f9d10'',
      now = (\<lambda>k. ''2025-10-18T12:00:0'' @ [decimal_digit k] @ ''+00:00''),
      store_fault = faults,
      presigned_url = (\<lambda>m k. Inr ''https://assets.example/signed''),
      query_cart = (\<lambda>u c. Inr (Some [], None)),
      query_fits = (\<lambda>u. Inr (Some [])),
      token_endpoint = (\<lambda>u d. Inl OtherException),
      cognito_domain = JNull,
      cognito_client_id = JNull\<rparr>"

definition request :: "string \<Rightarrow> string \<Rightarrow> json \<Rightarrow> pydict \<Rightarrow> pydict" where
  "request method resource claims extra =
     [(''httpMethod'', JStr method),
      (''resource'', JStr resource),
      (''requestContext'', JObj [(''authorizer'', JObj [(''claims'', claims)])])] @ extra"

definition caller :: "string \<Rightarrow> json" where
  "caller uid = JObj [(''sub'', JStr uid)]"

text \<open>
  The request context lacks the claim path: one of the keys \<open>requestContext\<close>,
  \<open>authorizer\<close>, \<open>claims\<close>, \<open>sub\<close> is missing from the dict that should hold it.
\<close>

definition claim_path_missing :: "pydict \<Rightarrow> bool" where
  "claim_path_missing event =
     (case map_of event ''requestContext'' of
        None \<Rightarrow> True
      | Some (JObj rc) \<Rightarrow>
          (case map_of rc ''authorizer'' of
             None \<Rightarrow> True
           | Some (JObj au) \<Rightarrow>
               (case map_of au ''claims'' of
                  None \<Rightarrow> True
                | Some (JObj cl) \<Rightarrow> map_of cl ''sub'' = None
                | Some _ \<Rightarrow> False)
           | Some _ \<Rightarrow> False)
      | Some _ \<Rightarrow> False)"

definition empty_store :: store where
  "empty_store = (\<lambda>t. Map.empty)"

definition ready_fit :: pydict where
  "ready_fit =
     [(''fitId'', JStr ''fit-1''),
      (''user_id'', JStr ''user-a''),
      (''items'', JArr [JObj [(''retailer'', JStr ''acme''), (''productId'', JStr ''p1'')]]),
      (''mode'', JStr ''MVP_COMPOSITE''),
      (''status'', JStr ''READY''),
      (''createdAt'', JStr ''2025-10-18T11:00:00+00:00''),
      (''updatedAt'', JStr ''2025-10-18T11:00:01+00:00''),
      (''imageUrl'', JStr ''generated/user-a/fit-1.jpg'')]"

definition post_event :: "string \<Rightarrow> string \<Rightarrow> json \<Rightarrow> pydict" where
  "post_event resource uid v =
     request ''POST'' resource (caller uid) [(''body'', JStr (json_dumps sample_lib v))]"

definition bedrock_no_items :: json where
  "bedrock_no_items = JObj [(''items'', JArr []), (''mode'', JStr ''BEDROCK'')]"

definition composite_one_item :: json where
  "composite_one_item =
     JObj [(''items'', JArr [JObj [(''retailer'', JStr ''acme''), (''productId'', JStr ''p1'')]]),
           (''mode'', JStr ''MVP_COMPOSITE'')]"

definition profile_body :: "json \<Rightarrow> json" where
  "profile_body height =
     JObj [(''height_cm'', height), (''weight_kg'', JInt 65), (''chest_cm'', JInt 92),
           (''waist_cm'', JInt 78), (''hips_cm'', JInt 95), (''inseam_cm'', JInt 80),
           (''preferred_fit'', JStr ''regular'')]"

definition cart_body :: "int \<Rightarrow> json" where
  "cart_body price =
     JObj [(''retailer'', JStr ''acme''), (''productId'', JStr ''p1''),
           (''title'', JStr ''Linen shirt''), (''price_cents'', JInt price),
           (''currency'', JStr ''USD''), (''productUrl'', JStr ''https://acme.example/p1''),
           (''imageUrl'', JStr ''https://acme.example/p1.jpg''), (''selectedSize'', JStr ''M''),
           (''color'', JStr ''blue''), (''category'', JStr ''tops'')]"

definition lib_for_two :: "json \<Rightarrow> json \<Rightarrow> pylib" where
  "lib_for_two v w =
     sample_lib\<lparr>json_loads := (\<lambda>t. if t = json_dumps sample_lib v then Some v
                               else if t = json_dumps sample_lib w then Some w else None)\<rparr>"

definition later_env :: env where
  "later_env = (sample_env (\<lambda>k. None))\<lparr>now := (\<lambda>k. ''2025-10-18T13:30:00+00:00'')\<rparr>"

definition faults_after_put :: "nat \<Rightarrow> exn option" where
  "faults_after_put k = (if k = 0 then None else Some ClientError)"

definition fault_on_ready_update :: "nat \<Rightarrow> exn option" where
  "fault_on_ready_update k = (if k = 1 then Some ClientError else None)"

section \<open>The life cycle of a fit job, as properties of the store\<close>

text \<open>
  A record is terminal when its status is READY or FAILED. A step of the store from \<open>s\<close>
  to \<open>s'\<close> is one-directional when a fit record that \<open>s'\<close> has and \<open>s\<close> had not is
  PENDING and has no image key, a terminal record of \<open>s\<close> is unchanged in \<open>s'\<close>, and
  \<open>s'\<close> holds an image key exactly on its READY records if \<open>s\<close> did.
\<close>

definition terminal :: "pydict \<Rightarrow> bool" where
  "terminal item \<longleftrightarrow>
     map_of item ''status'' = Some (JStr ''READY'') \<or>
     map_of item ''status'' = Some (JStr ''FAILED'')"

definition image_key_iff_ready :: "store \<Rightarrow> bool" where
  "image_key_iff_ready s \<longleftrightarrow>
     (\<forall>k item. s Fits k = Some item \<longrightarrow>
        (map_of item ''imageUrl'' \<noteq> None \<longleftrightarrow> map_of item ''status'' = Some (JStr ''READY'')))"

definition one_directional :: "store \<Rightarrow> store \<Rightarrow> bool" where
  "one_directional s s' \<longleftrightarrow>
     (\<forall>k item. s Fits k = None \<and> s' Fits k = Some item \<longrightarrow>
        map_of item ''status'' = Some (JStr ''PENDING'') \<and> map_of item ''imageUrl'' = None) \<and>
     (\<forall>k item. s Fits k = Some item \<and> terminal item \<longrightarrow> s' Fits k = Some item) \<and>
     (image_key_iff_ready s \<longrightarrow> image_key_iff_ready s')"

text \<open>
  The writes of one request respect the life cycle when each of them, applied to the store
  the preceding ones left, is a one-directional step, and the request as a whole leaves the
  terminal records it found unchanged and keeps image keys exactly on READY records.
\<close>

definition writes_one_directional :: "store \<Rightarrow> dbwrite list \<Rightarrow> bool" where
  "writes_one_directional s ws \<longleftrightarrow>
     (\<forall>i<length ws. one_directional (run s (take i ws)) (run s (take (Suc i) ws))) \<and>
     (\<forall>k item. s Fits k = Some item \<and> terminal item \<longrightarrow> run s ws Fits k = Some item) \<and>
     (image_key_iff_ready s \<longrightarrow> image_key_iff_ready (run s ws))"

section \<open>A Base64 codec for the examples\<close>

text \<open>
  The cursor examples need a library whose Base64 functions are the real ones on the texts
  they meet: the encoder of RFC 4648 with padding, applied to the bytes of an ASCII text,
  and a decoder of what that encoder produces.
\<close>

definition b64_char :: "nat \<Rightarrow> char" where
  "b64_char i =
     (if i < 26 then char_of (i + 65)
      else if i < 52 then char_of (i + 71)
      else if i < 62 then char_of (i - 4)
      else if i = 62 then CHR ''+'' else CHR ''/'')"

definition b64_index :: "char \<Rightarrow> nat option" where
  "b64_index c =
     (let n = (of_char c :: nat)
      in if 65 \<le> n \<and> n \<le> 90 then Some (n - 65)
         else if 97 \<le> n \<and> n \<le> 122 then Some (n - 71)
         else if 48 \<le> n \<and> n \<le> 57 then Some (n + 4)
         else if n = 43 then Some 62
         else if n = 47 then Some 63
         else None)"

fun b64_encode :: "nat list \<Rightarrow> string" where
  "b64_encode [] = []"
| "b64_encode [a] =
     [b64_char (a div 4), b64_char ((a mod 4) * 16), CHR ''='', CHR ''='']"
| "b64_encode [a, b] =
     [b64_char (a div 4), b64_char ((a mod 4) * 16 + b div 16),
      b64_char ((b mod 16) * 4), CHR ''='']"
| "b64_encode (a # b # c # rest) =
     [b64_char (a div 4), b64_char ((a mod 4) * 16 + b div 16),
      b64_char ((b mod 16) * 4 + c div 64), b64_char (c mod 64)] @ b64_encode rest"

fun b64_decode :: "string \<Rightarrow> nat list option" where
  "b64_decode [] = Some []"
| "b64_decode (c1 # c2 # c3 # c4 # rest) =
     (case (b64_index c1, b64_index c2) of
        (Some i1, Some i2) \<Rightarrow>
          if c3 = CHR ''='' \<and> c4 = CHR ''='' \<and> rest = [] then Some [i1 * 4 + i2 div 16]
          else (case b64_index c3 of
                  None \<Rightarrow> None
                | Some i3 \<Rightarrow>
                    if c4 = CHR ''='' \<and> rest = []
                    then Some [i1 * 4 + i2 div 16, (i2 mod 16) * 16 + i3 div 4]
                    else (case b64_index c4 of
                            None \<Rightarrow> None
                          | Some i4 \<Rightarrow>
                              (case b64_decode rest of
                                 None \<Rightarrow> None
                               | Some bs \<Rightarrow>
                                   Some ([i1 * 4 + i2 div 16, (i2 mod 16) * 16 + i3 div 4,
                                          (i3 mod 4) * 64 + i4] @ bs))))
      | _ \<Rightarrow> None)"
| "b64_decode cs = None"

definition cursor_lib :: "json \<Rightarrow> pylib" where
  "cursor_lib v =
     sample_lib
       \<lparr>json_loads := (\<lambda>t. if t = json_dumps sample_lib v then Some v else None),
        b64decode_str := (\<lambda>c. case b64_decode c of
                                 None \<Rightarrow> Inl OtherException
                               | Some bs \<Rightarrow> Inr (map char_of bs)),
        b64encode_str := (\<lambda>t. b64_encode (map of_char t))\<rparr>"

definition cart_key :: json where
  "cart_key = JObj [(''user_id'', JStr ''user-a''), (''item_key'', JStr ''acme#p1'')]"

section \<open>Properties\<close>

lemmas step_defs = and_then_def evaluated_def returning_def continue_def

lemma get_user_id_request [simp]:
  "get_user_id (request m r (JObj cl) extra) =
     (case map_of cl ''sub'' of
        Some u \<Rightarrow> Inr u
      | None \<Rightarrow> Inl (ValueError ''User ID not found in request context''))"
  by (simp add: get_user_id_def request_def split: option.split)

lemma get_user_id_missing:
  "claim_path_missing event \<longrightarrow>
     get_user_id event = Inl (ValueError ''User ID not found in request context'')"
  by (simp add: claim_path_missing_def get_user_id_def split: option.split json.split)

lemma statusCode_error [simp]:
  "statusCode (create_error_response L c t m d) = c"
  by (simp add: create_error_response_def create_response_def)

lemma statusCode_response [simp]:
  "statusCode (create_response L c b h) = c"
  by (simp add: create_response_def)

subsection \<open>The router's answer to OPTIONS\<close>

text \<open>
  C8, as the code has it. For every event whose method is OPTIONS, whatever its resource,
  the router answers with status 204 and the standard cross-origin headers, performs no
  write and consults neither the environment nor the store, so no domain handler runs. The
  body is not empty: it is the text \<^verbatim>\<open>{}\<close> that \<open>json.dumps\<close> prints for the empty dict
  passed to \<open>create_response\<close>.
\<close>

theorem options_preflight:
  assumes "map_of event ''httpMethod'' = Some (JStr ''OPTIONS'')"
      and "map_of event ''resource'' = Some resource"
  shows "lambda_handler L E event s =
           (\<lparr>statusCode = 204, headers = default_headers, body = ''{}''\<rparr>, [])"
  using assms by (simp add: lambda_handler_def create_response_def)

theorem options_preflight_witness:
  "map_of (request ''OPTIONS'' ''/fit/{fitId}'' JNull []) ''httpMethod'' = Some (JStr ''OPTIONS'') \<and>
   map_of (request ''OPTIONS'' ''/fit/{fitId}'' JNull []) ''resource'' = Some (JStr ''/fit/{fitId}'') \<and>
   lambda_handler sample_lib (sample_env (\<lambda>k. None)) (request ''OPTIONS'' ''/fit/{fitId}'' JNull [])
       empty_store =
     (\<lparr>statusCode = 204, headers = default_headers, body = ''{}''\<rparr>, [])"
proof -
  have m: "map_of (request ''OPTIONS'' ''/fit/{fitId}'' JNull []) ''httpMethod'' = Some (JStr ''OPTIONS'')"
    by (simp add: request_def)
  have r: "map_of (request ''OPTIONS'' ''/fit/{fitId}'' JNull []) ''resource'' = Some (JStr ''/fit/{fitId}'')"
    by (simp add: request_def)
  from options_preflight [OF m r] m r show ?thesis by simp
qed

text \<open>
  The claim as stated asks for an empty body; for OPTIONS on \<open>/cart\<close> the body has two
  characters.
\<close>

theorem options_body_counterexample:
  "body (fst (lambda_handler sample_lib (sample_env (\<lambda>k. None))
                (request ''OPTIONS'' ''/cart'' JNull []) empty_store)) = ''{}'' \<and>
   body (fst (lambda_handler sample_lib (sample_env (\<lambda>k. None))
                (request ''OPTIONS'' ''/cart'' JNull []) empty_store)) \<noteq> []"
  by (simp add: lambda_handler_def request_def create_response_def)

subsection \<open>Identity extraction\<close>




subsection \<open>Fit retrieval: existence before ownership\<close>

text \<open>
  C4. For an authenticated caller who asks for a fit id (a path parameter that is present
  and not empty) and a lookup the store answers: when no record has that id the handler
  returns 404 FIT_NOT_FOUND, and that response is not a 403; when the record exists and its
  \<open>user_id\<close> differs from the caller's the handler returns 403 FORBIDDEN, whatever the
  record's status and other attributes are. The lookup comes first, so the ownership test
  only runs on a record that exists.
\<close>

theorem fit_get_existence_before_ownership:
  assumes "get_user_id event = Inr user_id"
      and "map_of event ''pathParameters'' = Some (JObj pp)"
      and "map_of pp ''fitId'' = Some fit_id"
      and "truthy fit_id"
      and "store_fault E 0 = None"
  shows "(s Fits [Some fit_id] = None \<longrightarrow>
            fit_get_handler L E event s =
              create_error_response L 404 ''FIT_NOT_FOUND'' ''Fit not found'' None \<and>
            statusCode (fit_get_handler L E event s) \<noteq> 403) \<and>
         (\<forall>fit_item owner.
            s Fits [Some fit_id] = Some fit_item \<and> map_of fit_item ''user_id'' = Some owner \<and>
            \<not> py_eq owner user_id \<longrightarrow>
            fit_get_handler L E event s =
              create_error_response L 403 ''FORBIDDEN'' ''Access denied to this fit'' None \<and>
            statusCode (fit_get_handler L E event s) = 403)"
  using assms by (simp add: fit_get_handler_def step_defs key_of_def)

theorem fit_get_existence_before_ownership_witness:
  "get_user_id (request ''GET'' ''/fit/{fitId}'' (caller ''user-b'')
                  [(''pathParameters'', JObj [(''fitId'', JStr ''fit-1'')])]) = Inr (JStr ''user-b'') \<and>
   truthy (JStr ''fit-1'') \<and>
   store_fault (sample_env (\<lambda>k. None)) 0 = None \<and>
   empty_store Fits [Some (JStr ''fit-1'')] = None \<and>
   put_item Fits ready_fit empty_store Fits [Some (JStr ''fit-1'')] = Some ready_fit \<and>
   map_of ready_fit ''status'' = Some (JStr ''READY'') \<and>
   \<not> py_eq (JStr ''user-a'') (JStr ''user-b'') \<and>
   statusCode (fit_get_handler sample_lib (sample_env (\<lambda>k. None))
     (request ''GET'' ''/fit/{fitId}'' (caller ''user-b'')
        [(''pathParameters'', JObj [(''fitId'', JStr ''fit-1'')])]) empty_store) = 404 \<and>
   statusCode (fit_get_handler sample_lib (sample_env (\<lambda>k. None))
     (request ''GET'' ''/fit/{fitId}'' (caller ''user-b'')
        [(''pathParameters'', JObj [(''fitId'', JStr ''fit-1'')])])
     (put_item Fits ready_fit empty_store)) = 403"
proof -
  let ?ev = "request ''GET'' ''/fit/{fitId}'' (caller ''user-b'')
                  [(''pathParameters'', JObj [(''fitId'', JStr ''fit-1'')])]"
  let ?E = "sample_env (\<lambda>k. None)"
  have u: "get_user_id ?ev = Inr (JStr ''user-b'')"
    by (simp add: caller_def)
  have p: "map_of ?ev ''pathParameters'' = Some (JObj [(''fitId'', JStr ''fit-1'')])"
    by (simp add: request_def)
  have f: "map_of [(''fitId'', JStr ''fit-1'')] ''fitId'' = Some (JStr ''fit-1'')"
    by simp
  have t: "truthy (JStr ''fit-1'')"
    by simp
  have q: "store_fault ?E 0 = None"
    by (simp add: sample_env_def)
  have a: "empty_store Fits [Some (JStr ''fit-1'')] = None"
    by (simp add: empty_store_def)
  have b: "put_item Fits ready_fit empty_store Fits [Some (JStr ''fit-1'')] = Some ready_fit"
    by (simp add: put_item_def key_of_def ready_fit_def)
  have o: "map_of ready_fit ''user_id'' = Some (JStr ''user-a'')"
    by (simp add: ready_fit_def)
  have r: "map_of ready_fit ''status'' = Some (JStr ''READY'')"
    by (simp add: ready_fit_def)
  have n: "\<not> py_eq (JStr ''user-a'') (JStr ''user-b'')"
    by simp
  from fit_get_existence_before_ownership [OF u p f t q, of empty_store sample_lib] a
  have r404: "statusCode (fit_get_handler sample_lib ?E ?ev empty_store) = 404"
    by simp
  from fit_get_existence_before_ownership [OF u p f t q, of "put_item Fits ready_fit empty_store" sample_lib]
    b o n
  have r403: "statusCode (fit_get_handler sample_lib ?E ?ev (put_item Fits ready_fit empty_store)) = 403"
    by blast
  from u t q a b r n r404 r403 show ?thesis by blast
qed

subsection \<open>Steps of a handler\<close>

lemma and_then_continueE:
  assumes "and_then m f = Inr (Inr y)"
  obtains x where "m = Inr (Inr x)" and "f x = Inr (Inr y)"
  using assms by (auto simp: and_then_def split: sum.splits)

lemma evaluated_continue [simp]: "evaluated m = Inr (Inr x) \<longleftrightarrow> m = Inr x"
  by (simp add: evaluated_def split: sum.splits)

lemma returning_not_continue [simp]: "returning r \<noteq> Inr (Inr x)"
  by (simp add: returning_def)

lemma continue_eq [simp]: "continue x = Inr (Inr y) \<longleftrightarrow> x = y"
  by (simp add: continue_def)

lemma and_then_simps [simp]:
  "and_then (Inl e) f = Inl e"
  "and_then (Inr (Inl r)) f = Inr (Inl r)"
  "and_then (Inr (Inr x)) f = f x"
  "and_then (returning r) f = returning r"
  "and_then (continue x) f = f x"
  "and_then (evaluated (Inr x)) f = f x"
  "and_then (evaluated (Inl e)) f = Inl e"
  by (simp_all add: step_defs)

lemma key_present: "k \<in> fst ` set d \<longleftrightarrow> map_of d k \<noteq> None"
  by (simp add: map_of_eq_None_iff)

lemma parse_body_object:
  assumes "map_of event ''body'' = Some (JStr text)" and "json_loads L text = Some b"
  shows "parse_body L event = continue b"
  using assms by (simp add: parse_body_def)

subsection \<open>Validation of a fit request\<close>

lemma check_items_result:
  "check_items L xs =
     (if \<forall>x\<in>set xs. \<exists>d. x = JObj d \<and> map_of d ''retailer'' \<noteq> None \<and> map_of d ''productId'' \<noteq> None
      then continue ()
      else returning (create_error_response L 400 ''INVALID_ITEMS''
             ''Each item must have retailer and productId'' None))"
proof (induction xs)
  case Nil
  show ?case by simp
next
  case (Cons x xs)
  show ?case
  proof (cases x)
    case (JObj d)
    with Cons show ?thesis by (auto simp: key_present)
  qed (simp_all)
qed

lemma fit_validate_object:
  "fit_validate L (JObj b) =
     (case map_of b ''items'' of
        Some (JArr xs) \<Rightarrow>
          (case map_of b ''mode'' of
             None \<Rightarrow> returning (create_error_response L 400 ''INVALID_MODE''
                        ''mode must be MVP_COMPOSITE or BEDROCK'' None)
           | Some mode \<Rightarrow>
               if mode \<noteq> JStr ''MVP_COMPOSITE'' \<and> mode \<noteq> JStr ''BEDROCK''
               then returning (create_error_response L 400 ''INVALID_MODE''
                      ''mode must be MVP_COMPOSITE or BEDROCK'' None)
               else and_then (check_items L xs) (\<lambda>_. continue (JArr xs, mode)))
      | _ \<Rightarrow> returning (create_error_response L 400 ''MISSING_FIELD''
                ''items array is required'' None))"
  by (simp add: fit_validate_def key_present split: option.split json.split)

lemma fit_validate_continue:
  assumes "fit_validate L b = Inr (Inr (items, mode))"
  shows "mode = JStr ''MVP_COMPOSITE'' \<or> mode = JStr ''BEDROCK''"
proof -
  from assms obtain has_items where
    a: "(if \<not> has_items
         then returning (create_error_response L 400 ''MISSING_FIELD'' ''items array is required'' None)
         else and_then (evaluated (getitem b ''items'')) (\<lambda>items.
           case items of
             JArr xs \<Rightarrow>
               and_then (evaluated (contains ''mode'' b)) (\<lambda>has_mode.
                 if \<not> has_mode
                 then returning (create_error_response L 400 ''INVALID_MODE''
                        ''mode must be MVP_COMPOSITE or BEDROCK'' None)
                 else
               and_then (evaluated (getitem b ''mode'')) (\<lambda>mode.
                 if mode \<notin> set [JStr ''MVP_COMPOSITE'', JStr ''BEDROCK'']
                 then returning (create_error_response L 400 ''INVALID_MODE''
                        ''mode must be MVP_COMPOSITE or BEDROCK'' None)
                 else and_then (check_items L xs) (\<lambda>_. continue (items, mode))))
           | _ \<Rightarrow> returning (create_error_response L 400 ''MISSING_FIELD''
                     ''items array is required'' None))) = Inr (Inr (items, mode))"
    unfolding fit_validate_def by (elim and_then_continueE) simp
  then obtain its where
    b: "(case its of
             JArr xs \<Rightarrow>
               and_then (evaluated (contains ''mode'' b)) (\<lambda>has_mode.
                 if \<not> has_mode
                 then returning (create_error_response L 400 ''INVALID_MODE''
                        ''mode must be MVP_COMPOSITE or BEDROCK'' None)
                 else
               and_then (evaluated (getitem b ''mode'')) (\<lambda>mode.
                 if mode \<notin> set [JStr ''MVP_COMPOSITE'', JStr ''BEDROCK'']
                 then returning (create_error_response L 400 ''INVALID_MODE''
                        ''mode must be MVP_COMPOSITE or BEDROCK'' None)
                 else and_then (check_items L xs) (\<lambda>_. continue (its, mode))))
           | _ \<Rightarrow> returning (create_error_response L 400 ''MISSING_FIELD''
                     ''items array is required'' None)) = Inr (Inr (items, mode))"
    by (cases has_items) (auto elim: and_then_continueE)
  then obtain xs where
    c: "and_then (evaluated (contains ''mode'' b)) (\<lambda>has_mode.
                 if \<not> has_mode
                 then returning (create_error_response L 400 ''INVALID_MODE''
                        ''mode must be MVP_COMPOSITE or BEDROCK'' None)
                 else
               and_then (evaluated (getitem b ''mode'')) (\<lambda>mode.
                 if mode \<notin> set [JStr ''MVP_COMPOSITE'', JStr ''BEDROCK'']
                 then returning (create_error_response L 400 ''INVALID_MODE''
                        ''mode must be MVP_COMPOSITE or BEDROCK'' None)
                 else and_then (check_items L xs) (\<lambda>_. continue (its, mode)))) =
        Inr (Inr (items, mode))"
    by (cases its) simp_all
  then obtain has_mode where
    d: "(if \<not> has_mode
                 then returning (create_error_response L 400 ''INVALID_MODE''
                        ''mode must be MVP_COMPOSITE or BEDROCK'' None)
                 else
               and_then (evaluated (getitem b ''mode'')) (\<lambda>mode.
                 if mode \<notin> set [JStr ''MVP_COMPOSITE'', JStr ''BEDROCK'']
                 then returning (create_error_response L 400 ''INVALID_MODE''
                        ''mode must be MVP_COMPOSITE or BEDROCK'' None)
                 else and_then (check_items L xs) (\<lambda>_. continue (its, mode)))) =
        Inr (Inr (items, mode))"
    by (elim and_then_continueE) simp
  then obtain md where
    e: "(if md \<notin> set [JStr ''MVP_COMPOSITE'', JStr ''BEDROCK'']
                 then returning (create_error_response L 400 ''INVALID_MODE''
                        ''mode must be MVP_COMPOSITE or BEDROCK'' None)
                 else and_then (check_items L xs) (\<lambda>_. continue (its, md))) =
        Inr (Inr (items, mode))"
    by (cases has_mode) (auto elim: and_then_continueE)
  then have f: "md = JStr ''MVP_COMPOSITE'' \<or> md = JStr ''BEDROCK''"
    by (cases "md \<notin> set [JStr ''MVP_COMPOSITE'', JStr ''BEDROCK'']") simp_all
  with e have "and_then (check_items L xs) (\<lambda>_. continue (its, md)) = Inr (Inr (items, mode))"
    by auto
  then have "md = mode"
    by (elim and_then_continueE) simp
  with f show ?thesis by simp
qed

lemma fit_prepare_continue:
  assumes "fit_prepare L E event = Inr (Inr (u, m, fd))"
  shows "get_user_id event = Inr u \<and>
         (m = JStr ''MVP_COMPOSITE'' \<or> m = JStr ''BEDROCK'') \<and>
         map_of fd ''fitId'' = Some (JStr (uuid4 E)) \<and>
         map_of fd ''user_id'' = Some u \<and>
         map_of fd ''status'' = Some (JStr ''PENDING'') \<and>
         map_of fd ''imageUrl'' = None"
  using assms unfolding fit_prepare_def Let_def
  by (auto elim!: and_then_continueE dest!: fit_validate_continue
           simp: update_conv' split: if_splits)

lemma fit_prepare_valid:
  assumes "get_user_id event = Inr user_id"
      and "map_of event ''body'' = Some (JStr text)"
      and "json_loads L text = Some (JObj b)"
      and "map_of b ''items'' = Some (JArr xs)"
      and "\<forall>x\<in>set xs. \<exists>d. x = JObj d \<and> map_of d ''retailer'' \<noteq> None \<and> map_of d ''productId'' \<noteq> None"
      and "map_of b ''mode'' = Some mode"
      and "mode = JStr ''MVP_COMPOSITE'' \<or> mode = JStr ''BEDROCK''"
  shows "\<exists>fd. fit_prepare L E event = Inr (Inr (user_id, mode, fd)) \<and>
              map_of fd ''items'' = Some (JArr xs) \<and> map_of fd ''mode'' = Some mode"
proof -
  have v: "fit_validate L (JObj b) = continue (JArr xs, mode)"
    using assms(4-7) by (auto simp: fit_validate_object check_items_result)
  show ?thesis
  proof (cases "map_of b ''name''")
    case None
    note n = this
    show ?thesis
    proof (cases "map_of b ''body_asset_key''")
      case None
      with n v assms(1-3) show ?thesis
        by (simp add: fit_prepare_def parse_body_object key_present continue_def)
    next
      case (Some a)
      with n v assms(1-3) show ?thesis
        by (simp add: fit_prepare_def parse_body_object key_present continue_def update_conv')
    qed
  next
    case (Some nm)
    note n = this
    show ?thesis
    proof (cases "map_of b ''body_asset_key''")
      case None
      with n v assms(1-3) show ?thesis
        by (simp add: fit_prepare_def parse_body_object key_present continue_def update_conv')
    next
      case (Some a)
      with n v assms(1-3) show ?thesis
        by (simp add: fit_prepare_def parse_body_object key_present continue_def update_conv')
    qed
  qed
qed

lemma fit_prepare_rejected:
  assumes "get_user_id event = Inr user_id"
      and "map_of event ''body'' = Some (JStr text)"
      and "json_loads L text = Some (JObj b)"
      and "fit_validate L (JObj b) = returning r"
  shows "fit_create_handler L E event = (r, [])"
  using assms
  by (simp add: fit_create_handler_def fit_prepare_def parse_body_object returning_def)


lemma post_event_facts [simp]:
  "get_user_id (post_event r uid v) = Inr (JStr uid)"
  "map_of (post_event r uid v) ''body'' = Some (JStr (json_dumps sample_lib v))"
  "json_loads (lib_for v) (json_dumps sample_lib v) = Some v"
  by (simp add: post_event_def caller_def, simp add: post_event_def request_def,
      simp add: lib_for_def)



subsection \<open>Validation of a profile\<close>

lemma in_range_not_invalid:
  assumes "as_number v = Some n" and "num_greater n 0" and "num_le n 300"
  shows "\<not> invalid_measurement v"
proof (cases n)
  case (PInt i)
  with assms show ?thesis by (simp add: invalid_measurement_def)
next
  case (PFloat f)
  with assms show ?thesis by (cases f) (simp_all add: invalid_measurement_def)
qed

lemma invalid_measurement_iff:
  "invalid_measurement v \<longleftrightarrow>
     as_number v = None \<or> (\<exists>n. as_number v = Some n \<and> (num_le n 0 \<or> num_greater n 300))"
  by (simp add: invalid_measurement_def split: option.split)

lemma check_measurements_skip:
  assumes "\<forall>g\<in>set pre. \<exists>v. map_of b g = Some v \<and> \<not> invalid_measurement v"
  shows "check_measurements L (pre @ rest) (JObj b) = check_measurements L rest (JObj b)"
  using assms
proof (induction pre)
  case Nil
  show ?case by simp
next
  case (Cons g pre)
  from Cons.prems obtain v where "map_of b g = Some v" and "\<not> invalid_measurement v"
    by auto
  with Cons show ?case by (simp add: key_present)
qed

lemma check_measurements_ok:
  assumes "\<forall>g\<in>set fs. \<exists>v. map_of b g = Some v \<and> \<not> invalid_measurement v"
  shows "check_measurements L fs (JObj b) = continue ()"
  using check_measurements_skip [OF assms, of L "[]"] by simp

lemma check_measurements_missing:
  assumes "map_of b f = None"
  shows "check_measurements L (f # rest) (JObj b) =
           returning (create_error_response L 400 ''MISSING_FIELD''
                        (''Required field missing: '' @ f) None)"
  using assms by (simp add: key_present)

lemma check_measurements_invalid:
  assumes "map_of b f = Some v" and "invalid_measurement v"
  shows "check_measurements L (f # rest) (JObj b) =
           returning (create_error_response L 400 ''INVALID_VALUE''
                        (f @ '' must be a positive number less than 300'') None)"
  using assms by (simp add: key_present)

lemma check_measurements_bad:
  assumes "\<exists>f\<in>set fs. map_of b f = None \<or> (\<exists>v. map_of b f = Some v \<and> invalid_measurement v)"
  shows "\<exists>f\<in>set fs.
           check_measurements L fs (JObj b) =
             returning (create_error_response L 400 ''MISSING_FIELD''
                          (''Required field missing: '' @ f) None) \<and> map_of b f = None \<or>
           check_measurements L fs (JObj b) =
             returning (create_error_response L 400 ''INVALID_VALUE''
                          (f @ '' must be a positive number less than 300'') None) \<and>
           (\<exists>v. map_of b f = Some v \<and> invalid_measurement v)"
  using assms
proof (induction fs)
  case Nil
  then show ?case by simp
next
  case (Cons g fs)
  show ?case
  proof (cases "map_of b g")
    case None
    then show ?thesis using check_measurements_missing [of b g L fs] by simp
  next
    case (Some v)
    show ?thesis
    proof (cases "invalid_measurement v")
      case True
      with Some show ?thesis using check_measurements_invalid [of b g v L fs] by simp
    next
      case False
      with Some have s: "check_measurements L (g # fs) (JObj b) = check_measurements L fs (JObj b)"
        by (simp add: key_present)
      from False Some Cons.prems
      have "\<exists>f\<in>set fs. map_of b f = None \<or> (\<exists>v. map_of b f = Some v \<and> invalid_measurement v)"
        by auto
      from Cons.IH [OF this] show ?thesis by (auto simp only: s list.set insert_iff)
    qed
  qed
qed

lemma check_measurements_rejects:
  assumes "\<exists>f\<in>set fs. map_of b f = None \<or> (\<exists>v. map_of b f = Some v \<and> invalid_measurement v)"
  shows "\<exists>f\<in>set fs.
           check_measurements L fs (JObj b) =
             returning (create_error_response L 400 ''MISSING_FIELD''
                          (''Required field missing: '' @ f) None) \<or>
           check_measurements L fs (JObj b) =
             returning (create_error_response L 400 ''INVALID_VALUE''
                          (f @ '' must be a positive number less than 300'') None)"
  using assms
proof (induction fs)
  case Nil
  then show ?case by simp
next
  case (Cons g fs)
  show ?case
  proof (cases "map_of b g")
    case None
    then show ?thesis using check_measurements_missing [of b g L fs] by simp
  next
    case (Some v)
    show ?thesis
    proof (cases "invalid_measurement v")
      case True
      with Some show ?thesis using check_measurements_invalid [of b g v L fs] by simp
    next
      case False
      with Some have s: "check_measurements L (g # fs) (JObj b) = check_measurements L fs (JObj b)"
        by (simp add: key_present)
      from False Some Cons.prems
      have "\<exists>f\<in>set fs. map_of b f = None \<or> (\<exists>v. map_of b f = Some v \<and> invalid_measurement v)"
        by auto
      from Cons.IH [OF this] show ?thesis by (auto simp only: s list.set insert_iff)
    qed
  qed
qed

lemma profile_rejected:
  assumes "get_user_id event = Inr user_id"
      and "map_of event ''body'' = Some (JStr text)"
      and "json_loads L text = Some (JObj b)"
      and "check_measurements L required_measurements (JObj b) = returning r"
  shows "profile_handler L E event = (r, [])"
  using assms
  by (simp add: profile_handler_def profile_prepare_def parse_body_object returning_def)

lemma profile_accepted:
  assumes "get_user_id event = Inr user_id"
      and "map_of event ''body'' = Some (JStr text)"
      and "json_loads L text = Some (JObj b)"
      and "\<forall>f\<in>set required_measurements. \<exists>v. map_of b f = Some v \<and> \<not> invalid_measurement v"
      and "map_of b ''preferred_fit'' \<noteq> None"
      and "store_fault E 0 = None"
  shows "\<exists>pd. profile_handler L E event =
                (create_response L 200 (JObj [(''ok'', JBool True), (''profile'', JObj pd)]) None,
                 [PutItem Profiles pd]) \<and>
              map_of pd ''user_id'' = Some user_id \<and>
              (\<forall>f\<in>set (required_measurements @ [''preferred_fit'', ''avatar_key'']).
                 map_of pd f = map_of b f) \<and>
              map_of pd ''updatedAt'' = Some (JStr (now E 0)) \<and>
              set (map fst pd) \<subseteq>
                set ([''user_id''] @ required_measurements @
                     [''preferred_fit'', ''updatedAt'', ''avatar_key''])"
proof -
  have c: "check_measurements L required_measurements (JObj b) = continue ()"
    using assms(4) by (rule check_measurements_ok)
  from assms(4) obtain v1 v2 v3 v4 v5 v6 where
    v: "map_of b ''height_cm'' = Some v1" "map_of b ''weight_kg'' = Some v2"
       "map_of b ''chest_cm'' = Some v3" "map_of b ''waist_cm'' = Some v4"
       "map_of b ''hips_cm'' = Some v5" "map_of b ''inseam_cm'' = Some v6"
    by (auto simp: required_measurements_def)
  from assms(5) obtain pf where p: "map_of b ''preferred_fit'' = Some pf"
    by auto
  show ?thesis
  proof (cases "map_of b ''avatar_key''")
    case None
    with assms(1-3,6) c v p show ?thesis
      by (simp add: profile_handler_def profile_prepare_def parse_body_object key_present
          required_measurements_def continue_def)
  next
    case (Some a)
    with assms(1-3,6) c v p show ?thesis
      by (simp add: profile_handler_def profile_prepare_def parse_body_object key_present
          required_measurements_def continue_def)
  qed
qed


lemma profile_body_loads:
  "json_loads (lib_for (profile_body h)) (json_dumps sample_lib (profile_body h)) =
     Some (JObj [(''height_cm'', h), (''weight_kg'', JInt 65), (''chest_cm'', JInt 92),
                 (''waist_cm'', JInt 78), (''hips_cm'', JInt 95), (''inseam_cm'', JInt 80),
                 (''preferred_fit'', JStr ''regular'')])"
  by (simp add: lib_for_def) (simp add: profile_body_def)


subsection \<open>Booleans as measurements\<close>

lemma dropWhile_member:
  "f0 \<in> set xs \<Longrightarrow> \<exists>rest. dropWhile (\<lambda>f. f \<noteq> f0) xs = f0 # rest"
  by (induction xs) auto

text \<open>
  C10. \<open>isinstance(True, (int, float))\<close> holds and \<open>True\<close> is the number 1, so the
  numeric check accepts the JSON value \<open>true\<close> in a required measurement: when the other
  measurements are numbers in (0, 300], \<open>preferred_fit\<close> is present and the store accepts
  the put, the profile is stored with the boolean itself in that field. The JSON value
  \<open>false\<close> is the number 0: the submission is rejected with 400 and nothing is written,
  and the error is INVALID_VALUE naming that field when the required fields checked before
  it are acceptable.
\<close>

theorem boolean_measurement:
  assumes "get_user_id event = Inr user_id"
      and "map_of event ''body'' = Some (JStr text)"
      and "json_loads L text = Some (JObj b)"
      and "f0 \<in> set required_measurements"
  shows "as_number (JBool True) = Some (PInt 1) \<and>
         \<not> invalid_measurement (JBool True) \<and>
         invalid_measurement (JBool False) \<and>
         (map_of b f0 = Some (JBool True) \<and>
          (\<forall>f\<in>set required_measurements. f \<noteq> f0 \<longrightarrow>
             (\<exists>v n. map_of b f = Some v \<and> as_number v = Some n \<and>
                    num_greater n 0 \<and> num_le n 300)) \<and>
          map_of b ''preferred_fit'' \<noteq> None \<and> store_fault E 0 = None \<longrightarrow>
          (\<exists>pd. profile_handler L E event =
                  (create_response L 200
                     (JObj [(''ok'', JBool True), (''profile'', JObj pd)]) None,
                   [PutItem Profiles pd]) \<and>
                map_of pd f0 = Some (JBool True) \<and>
                (\<forall>s. run s [PutItem Profiles pd] Profiles [Some user_id] = Some pd))) \<and>
         (map_of b f0 = Some (JBool False) \<longrightarrow>
          (\<exists>f\<in>set required_measurements.
             profile_handler L E event =
               (create_error_response L 400 ''MISSING_FIELD''
                  (''Required field missing: '' @ f) None, []) \<or>
             profile_handler L E event =
               (create_error_response L 400 ''INVALID_VALUE''
                  (f @ '' must be a positive number less than 300'') None, [])) \<and>
          ((\<forall>f\<in>set (takeWhile (\<lambda>f. f \<noteq> f0) required_measurements).
              \<exists>v. map_of b f = Some v \<and> \<not> invalid_measurement v) \<longrightarrow>
           profile_handler L E event =
             (create_error_response L 400 ''INVALID_VALUE''
                (f0 @ '' must be a positive number less than 300'') None, [])))"
proof (intro conjI impI)
  show "as_number (JBool True) = Some (PInt 1)"
    by simp
  show t: "\<not> invalid_measurement (JBool True)"
    by (simp add: invalid_measurement_def)
  show f: "invalid_measurement (JBool False)"
    by (simp add: invalid_measurement_def)
  {
    assume a: "map_of b f0 = Some (JBool True) \<and>
          (\<forall>f\<in>set required_measurements. f \<noteq> f0 \<longrightarrow>
             (\<exists>v n. map_of b f = Some v \<and> as_number v = Some n \<and>
                    num_greater n 0 \<and> num_le n 300)) \<and>
          map_of b ''preferred_fit'' \<noteq> None \<and> store_fault E 0 = None"
    then have b0: "map_of b f0 = Some (JBool True)"
      and others: "\<forall>f\<in>set required_measurements. f \<noteq> f0 \<longrightarrow>
             (\<exists>v n. map_of b f = Some v \<and> as_number v = Some n \<and>
                    num_greater n 0 \<and> num_le n 300)"
      and p: "map_of b ''preferred_fit'' \<noteq> None" and q: "store_fault E 0 = None"
      by simp_all
    have g: "\<forall>f\<in>set required_measurements. \<exists>v. map_of b f = Some v \<and> \<not> invalid_measurement v"
    proof
      fix f assume m: "f \<in> set required_measurements"
      show "\<exists>v. map_of b f = Some v \<and> \<not> invalid_measurement v"
      proof (cases "f = f0")
        case True
        with b0 t show ?thesis by simp
      next
        case False
        from others m have "f \<noteq> f0 \<longrightarrow>
             (\<exists>v n. map_of b f = Some v \<and> as_number v = Some n \<and>
                    num_greater n 0 \<and> num_le n 300)"
          by (rule bspec)
        with False obtain v n where v: "map_of b f = Some v" and n: "as_number v = Some n"
          "num_greater n 0" "num_le n 300"
          by (elim impE exE conjE)
        from n have "\<not> invalid_measurement v"
          by (rule in_range_not_invalid)
        with v show ?thesis by (intro exI conjI)
      qed
    qed
    from profile_accepted [OF assms(1-3) g p q] obtain pd where
      pd: "profile_handler L E event =
            (create_response L 200 (JObj [(''ok'', JBool True), (''profile'', JObj pd)]) None,
             [PutItem Profiles pd]) \<and>
          map_of pd ''user_id'' = Some user_id \<and>
          (\<forall>f\<in>set (required_measurements @ [''preferred_fit'', ''avatar_key'']).
             map_of pd f = map_of b f) \<and>
          map_of pd ''updatedAt'' = Some (JStr (now E 0)) \<and>
          set (map fst pd) \<subseteq>
            set ([''user_id''] @ required_measurements @
                 [''preferred_fit'', ''updatedAt'', ''avatar_key''])"
      ..
    then have h: "profile_handler L E event =
            (create_response L 200 (JObj [(''ok'', JBool True), (''profile'', JObj pd)]) None,
             [PutItem Profiles pd])"
      by (rule conjunct1)
    from pd have u: "map_of pd ''user_id'' = Some user_id"
      by simp
    then have w: "\<forall>s. run s [PutItem Profiles pd] Profiles [Some user_id] = Some pd"
      by (simp add: run_def put_item_def key_of_def)
    from pd have "\<forall>f\<in>set (required_measurements @ [''preferred_fit'', ''avatar_key'']).
             map_of pd f = map_of b f"
      by simp
    with assms(4) have "map_of pd f0 = map_of b f0"
      by simp
    with b0 have k: "map_of pd f0 = Some (JBool True)"
      by simp
    from h k w show "\<exists>pd. profile_handler L E event =
                  (create_response L 200
                     (JObj [(''ok'', JBool True), (''profile'', JObj pd)]) None,
                   [PutItem Profiles pd]) \<and>
                map_of pd f0 = Some (JBool True) \<and>
                (\<forall>s. run s [PutItem Profiles pd] Profiles [Some user_id] = Some pd)"
      by (intro exI [of _ pd] conjI)
  }
  {
    assume b0: "map_of b f0 = Some (JBool False)"
    with f have "map_of b f0 = None \<or> (\<exists>v. map_of b f0 = Some v \<and> invalid_measurement v)"
      by simp
    with assms(4)
    have "\<exists>f\<in>set required_measurements.
            map_of b f = None \<or> (\<exists>v. map_of b f = Some v \<and> invalid_measurement v)"
      by (intro bexI [of _ f0])
    from check_measurements_rejects [OF this, of L] obtain g where
      g: "g \<in> set required_measurements" and
      r: "check_measurements L required_measurements (JObj b) =
            returning (create_error_response L 400 ''MISSING_FIELD''
                         (''Required field missing: '' @ g) None) \<or>
          check_measurements L required_measurements (JObj b) =
            returning (create_error_response L 400 ''INVALID_VALUE''
                         (g @ '' must be a positive number less than 300'') None)"
      ..
    from r have "profile_handler L E event =
               (create_error_response L 400 ''MISSING_FIELD''
                  (''Required field missing: '' @ g) None, []) \<or>
             profile_handler L E event =
               (create_error_response L 400 ''INVALID_VALUE''
                  (g @ '' must be a positive number less than 300'') None, [])"
    proof
      assume "check_measurements L required_measurements (JObj b) =
            returning (create_error_response L 400 ''MISSING_FIELD''
                         (''Required field missing: '' @ g) None)"
      from profile_rejected [OF assms(1-3) this] show ?thesis by (rule disjI1)
    next
      assume "check_measurements L required_measurements (JObj b) =
            returning (create_error_response L 400 ''INVALID_VALUE''
                         (g @ '' must be a positive number less than 300'') None)"
      from profile_rejected [OF assms(1-3) this] show ?thesis by (rule disjI2)
    qed
    then show "\<exists>f\<in>set required_measurements.
             profile_handler L E event =
               (create_error_response L 400 ''MISSING_FIELD''
                  (''Required field missing: '' @ f) None, []) \<or>
             profile_handler L E event =
               (create_error_response L 400 ''INVALID_VALUE''
                  (f @ '' must be a positive number less than 300'') None, [])"
      using g by (intro bexI [of _ g])
    assume pre: "\<forall>f\<in>set (takeWhile (\<lambda>f. f \<noteq> f0) required_measurements).
              \<exists>v. map_of b f = Some v \<and> \<not> invalid_measurement v"
    from dropWhile_member [OF assms(4)] obtain rest where
      d: "dropWhile (\<lambda>f. f \<noteq> f0) required_measurements = f0 # rest"
      ..
    have "check_measurements L required_measurements (JObj b) =
          check_measurements L (takeWhile (\<lambda>f. f \<noteq> f0) required_measurements @
                                dropWhile (\<lambda>f. f \<noteq> f0) required_measurements) (JObj b)"
      by (simp only: takeWhile_dropWhile_id)
    also have "\<dots> = check_measurements L (f0 # rest) (JObj b)"
      unfolding d using pre by (rule check_measurements_skip)
    also have "\<dots> = returning (create_error_response L 400 ''INVALID_VALUE''
                         (f0 @ '' must be a positive number less than 300'') None)"
      using b0 f by (rule check_measurements_invalid)
    finally show "profile_handler L E event =
             (create_error_response L 400 ''INVALID_VALUE''
                (f0 @ '' must be a positive number less than 300'') None, [])"
      by (rule profile_rejected [OF assms(1-3)])
  }
qed

theorem boolean_measurement_witness:
  "get_user_id (post_event ''/profile'' ''user-a'' (profile_body (JBool True))) = Inr (JStr ''user-a'') \<and>
   ''height_cm'' \<in> set required_measurements \<and>
   (\<exists>pd. snd (profile_handler (lib_for (profile_body (JBool True))) (sample_env (\<lambda>k. None))
                (post_event ''/profile'' ''user-a'' (profile_body (JBool True)))) =
            [PutItem Profiles pd] \<and>
         map_of pd ''height_cm'' = Some (JBool True)) \<and>
   snd (profile_handler (lib_for (profile_body (JBool False))) (sample_env (\<lambda>k. None))
          (post_event ''/profile'' ''user-a'' (profile_body (JBool False)))) = [] \<and>
   fst (profile_handler (lib_for (profile_body (JBool False))) (sample_env (\<lambda>k. None))
          (post_event ''/profile'' ''user-a'' (profile_body (JBool False)))) =
     create_error_response (lib_for (profile_body (JBool False))) 400 ''INVALID_VALUE''
       ''height_cm must be a positive number less than 300'' None"
proof -
  let ?E = "sample_env (\<lambda>k. None)"
  let ?yes = "profile_body (JBool True)"
  let ?no = "profile_body (JBool False)"
  let ?b = "\<lambda>h. [(''height_cm'', h), (''weight_kg'', JInt 65), (''chest_cm'', JInt 92),
                 (''waist_cm'', JInt 78), (''hips_cm'', JInt 95), (''inseam_cm'', JInt 80),
                 (''preferred_fit'', JStr ''regular'')]"
  have u: "get_user_id (post_event ''/profile'' ''user-a'' ?yes) = Inr (JStr ''user-a'')"
          "get_user_id (post_event ''/profile'' ''user-a'' ?no) = Inr (JStr ''user-a'')"
    by simp_all
  have t: "map_of (post_event ''/profile'' ''user-a'' ?yes) ''body'' =
             Some (JStr (json_dumps sample_lib ?yes))"
          "map_of (post_event ''/profile'' ''user-a'' ?no) ''body'' =
             Some (JStr (json_dumps sample_lib ?no))"
    by simp_all
  have m: "''height_cm'' \<in> set required_measurements"
    by (simp add: required_measurements_def)
  have yes: "map_of (?b (JBool True)) ''height_cm'' = Some (JBool True) \<and>
          (\<forall>f\<in>set required_measurements. f \<noteq> ''height_cm'' \<longrightarrow>
             (\<exists>v n. map_of (?b (JBool True)) f = Some v \<and> as_number v = Some n \<and>
                    num_greater n 0 \<and> num_le n 300)) \<and>
          map_of (?b (JBool True)) ''preferred_fit'' \<noteq> None \<and> store_fault ?E 0 = None"
    by (simp add: required_measurements_def sample_env_def)
  from boolean_measurement [OF u(1) t(1) profile_body_loads m, of ?E]
  have "map_of (?b (JBool True)) ''height_cm'' = Some (JBool True) \<and>
          (\<forall>f\<in>set required_measurements. f \<noteq> ''height_cm'' \<longrightarrow>
             (\<exists>v n. map_of (?b (JBool True)) f = Some v \<and> as_number v = Some n \<and>
                    num_greater n 0 \<and> num_le n 300)) \<and>
          map_of (?b (JBool True)) ''preferred_fit'' \<noteq> None \<and> store_fault ?E 0 = None \<longrightarrow>
          (\<exists>pd. profile_handler (lib_for ?yes) ?E (post_event ''/profile'' ''user-a'' ?yes) =
                  (create_response (lib_for ?yes) 200
                     (JObj [(''ok'', JBool True), (''profile'', JObj pd)]) None,
                   [PutItem Profiles pd]) \<and>
                map_of pd ''height_cm'' = Some (JBool True) \<and>
                (\<forall>s. run s [PutItem Profiles pd] Profiles [Some (JStr ''user-a'')] = Some pd))"
    by (elim conjE)
  from this yes
  have "\<exists>pd. profile_handler (lib_for ?yes) ?E (post_event ''/profile'' ''user-a'' ?yes) =
                  (create_response (lib_for ?yes) 200
                     (JObj [(''ok'', JBool True), (''profile'', JObj pd)]) None,
                   [PutItem Profiles pd]) \<and>
                map_of pd ''height_cm'' = Some (JBool True) \<and>
                (\<forall>s. run s [PutItem Profiles pd] Profiles [Some (JStr ''user-a'')] = Some pd)"
    by (rule mp)
  then obtain pd where
    h: "profile_handler (lib_for ?yes) ?E (post_event ''/profile'' ''user-a'' ?yes) =
                  (create_response (lib_for ?yes) 200
                     (JObj [(''ok'', JBool True), (''profile'', JObj pd)]) None,
                   [PutItem Profiles pd])" and
    k: "map_of pd ''height_cm'' = Some (JBool True)"
    by (elim exE conjE)
  from h have "snd (profile_handler (lib_for ?yes) ?E (post_event ''/profile'' ''user-a'' ?yes)) =
      [PutItem Profiles pd]"
    by (simp only: snd_conv)
  with k have acc: "\<exists>pd. snd (profile_handler (lib_for ?yes) ?E
                                (post_event ''/profile'' ''user-a'' ?yes)) =
            [PutItem Profiles pd] \<and>
         map_of pd ''height_cm'' = Some (JBool True)"
    by (intro exI [of _ pd] conjI)
  have no: "map_of (?b (JBool False)) ''height_cm'' = Some (JBool False)"
    by simp
  have pre: "\<forall>f\<in>set (takeWhile (\<lambda>f. f \<noteq> ''height_cm'') required_measurements).
              \<exists>v. map_of (?b (JBool False)) f = Some v \<and> \<not> invalid_measurement v"
    by (simp add: required_measurements_def)
  from boolean_measurement [OF u(2) t(2) profile_body_loads m, of ?E]
  have "map_of (?b (JBool False)) ''height_cm'' = Some (JBool False) \<longrightarrow>
          (\<exists>f\<in>set required_measurements.
             profile_handler (lib_for ?no) ?E (post_event ''/profile'' ''user-a'' ?no) =
               (create_error_response (lib_for ?no) 400 ''MISSING_FIELD''
                  (''Required field missing: '' @ f) None, []) \<or>
             profile_handler (lib_for ?no) ?E (post_event ''/profile'' ''user-a'' ?no) =
               (create_error_response (lib_for ?no) 400 ''INVALID_VALUE''
                  (f @ '' must be a positive number less than 300'') None, [])) \<and>
          ((\<forall>f\<in>set (takeWhile (\<lambda>f. f \<noteq> ''height_cm'') required_measurements).
              \<exists>v. map_of (?b (JBool False)) f = Some v \<and> \<not> invalid_measurement v) \<longrightarrow>
           profile_handler (lib_for ?no) ?E (post_event ''/profile'' ''user-a'' ?no) =
             (create_error_response (lib_for ?no) 400 ''INVALID_VALUE''
                (''height_cm'' @ '' must be a positive number less than 300'') None, []))"
    by (elim conjE)
  from this no
  have "(\<exists>f\<in>set required_measurements.
             profile_handler (lib_for ?no) ?E (post_event ''/profile'' ''user-a'' ?no) =
               (create_error_response (lib_for ?no) 400 ''MISSING_FIELD''
                  (''Required field missing: '' @ f) None, []) \<or>
             profile_handler (lib_for ?no) ?E (post_event ''/profile'' ''user-a'' ?no) =
               (create_error_response (lib_for ?no) 400 ''INVALID_VALUE''
                  (f @ '' must be a positive number less than 300'') None, [])) \<and>
          ((\<forall>f\<in>set (takeWhile (\<lambda>f. f \<noteq> ''height_cm'') required_measurements).
              \<exists>v. map_of (?b (JBool False)) f = Some v \<and> \<not> invalid_measurement v) \<longrightarrow>
           profile_handler (lib_for ?no) ?E (post_event ''/profile'' ''user-a'' ?no) =
             (create_error_response (lib_for ?no) 400 ''INVALID_VALUE''
                (''height_cm'' @ '' must be a positive number less than 300'') None, []))"
    by (rule mp)
  then have "(\<forall>f\<in>set (takeWhile (\<lambda>f. f \<noteq> ''height_cm'') required_measurements).
              \<exists>v. map_of (?b (JBool False)) f = Some v \<and> \<not> invalid_measurement v) \<longrightarrow>
           profile_handler (lib_for ?no) ?E (post_event ''/profile'' ''user-a'' ?no) =
             (create_error_response (lib_for ?no) 400 ''INVALID_VALUE''
                (''height_cm'' @ '' must be a positive number less than 300'') None, [])"
    by (rule conjunct2)
  from this pre
  have "profile_handler (lib_for ?no) ?E (post_event ''/profile'' ''user-a'' ?no) =
             (create_error_response (lib_for ?no) 400 ''INVALID_VALUE''
                (''height_cm'' @ '' must be a positive number less than 300'') None, [])"
    by (rule mp)
  then have rej: "snd (profile_handler (lib_for ?no) ?E (post_event ''/profile'' ''user-a'' ?no)) = []"
    "fst (profile_handler (lib_for ?no) ?E (post_event ''/profile'' ''user-a'' ?no)) =
       create_error_response (lib_for ?no) 400 ''INVALID_VALUE''
         ''height_cm must be a positive number less than 300'' None"
    by simp_all
  from u(1) m acc rej show ?thesis
    by (intro conjI)
qed

subsection \<open>The cart upsert\<close>

lemma cart_accepted:
  assumes "get_user_id event = Inr user_id"
      and "map_of event ''body'' = Some (JStr text)"
      and "json_loads L text = Some (JObj b)"
      and "map_of b ''retailer'' = Some v1" and "map_of b ''productId'' = Some v2"
      and "map_of b ''title'' = Some v3" and "map_of b ''price_cents'' = Some v4"
      and "map_of b ''currency'' = Some v5" and "map_of b ''productUrl'' = Some v6"
      and "map_of b ''imageUrl'' = Some v7" and "map_of b ''selectedSize'' = Some v8"
      and "map_of b ''color'' = Some v9" and "map_of b ''category'' = Some v10"
      and "\<not> invalid_price v4"
      and "store_fault E 0 = None"
  shows "cart_post_handler L E event =
           (create_response L 200 (JObj [(''ok'', JBool True)]) None,
            [UpdateItem CartItems
               [(''user_id'', user_id),
                (''item_key'', JStr (format_value L v1 @ ''#'' @ format_value L v2))]
               [(''retailer'', Val v1), (''productId'', Val v2), (''title'', Val v3),
                (''price_cents'', Val v4), (''currency'', Val v5), (''productUrl'', Val v6),
                (''imageUrl'', Val v7), (''selectedSize'', Val v8), (''color'', Val v9),
                (''category'', Val v10),
                (''updatedAt'', Val (JStr (now E 0))),
                (''addedAt'', IfNotExists ''addedAt'' (JStr (now E 0)))]])"
  using assms
  by (simp add: cart_post_handler_def cart_prepare_def parse_body_object key_present
      cart_required_fields_def continue_def Let_def)

lemma cart_update_store:
  "\<exists>item.
     run s [UpdateItem CartItems [(''user_id'', u), (''item_key'', JStr ik)]
              [(''retailer'', Val v1), (''productId'', Val v2), (''title'', Val v3),
               (''price_cents'', Val v4), (''currency'', Val v5), (''productUrl'', Val v6),
               (''imageUrl'', Val v7), (''selectedSize'', Val v8), (''color'', Val v9),
               (''category'', Val v10),
               (''updatedAt'', Val (JStr ts)),
               (''addedAt'', IfNotExists ''addedAt'' (JStr ts))]]
       CartItems [Some u, Some (JStr ik)] = Some item \<and>
     map_of item ''addedAt'' =
       Some (case s CartItems [Some u, Some (JStr ik)] of
               None \<Rightarrow> JStr ts
             | Some old \<Rightarrow> (case map_of old ''addedAt'' of None \<Rightarrow> JStr ts | Some x \<Rightarrow> x)) \<and>
     map_of item ''updatedAt'' = Some (JStr ts) \<and>
     map_of item ''retailer'' = Some v1 \<and> map_of item ''productId'' = Some v2 \<and>
     map_of item ''title'' = Some v3 \<and> map_of item ''price_cents'' = Some v4 \<and>
     map_of item ''currency'' = Some v5 \<and> map_of item ''productUrl'' = Some v6 \<and>
     map_of item ''imageUrl'' = Some v7 \<and> map_of item ''selectedSize'' = Some v8 \<and>
     map_of item ''color'' = Some v9 \<and> map_of item ''category'' = Some v10"
  by (simp add: run_def update_item_def key_of_def Let_def assign_all_def update_conv'
      split: option.split)

lemma cart_fields_values:
  assumes "\<forall>f\<in>set cart_required_fields. map_of b f \<noteq> None"
  obtains v1 v2 v3 v4 v5 v6 v7 v8 v9 v10 where
    "map_of b ''retailer'' = Some v1" "map_of b ''productId'' = Some v2"
    "map_of b ''title'' = Some v3" "map_of b ''price_cents'' = Some v4"
    "map_of b ''currency'' = Some v5" "map_of b ''productUrl'' = Some v6"
    "map_of b ''imageUrl'' = Some v7" "map_of b ''selectedSize'' = Some v8"
    "map_of b ''color'' = Some v9" "map_of b ''category'' = Some v10"
  using assms by (auto simp: cart_required_fields_def)

text \<open>
  C3. Two invocations of the cart upsert by the same user with valid bodies (all ten fields
  present, \<open>price_cents\<close> a number not below 0) that carry the same \<open>retailer\<close> and
  \<open>productId\<close>, both accepted by the store: after the first the record under the key has an
  \<open>addedAt\<close>, which is the first invocation's time stamp when the record did not exist
  before; after the second the record holds every field the second body submitted and the
  second invocation's \<open>updatedAt\<close>, and its \<open>addedAt\<close> is the one it had after the first.
\<close>

theorem cart_upsert_keeps_added_at:
  assumes "get_user_id ev1 = Inr user_id"
      and "map_of ev1 ''body'' = Some (JStr text1)"
      and "json_loads L text1 = Some (JObj b1)"
      and "get_user_id ev2 = Inr user_id"
      and "map_of ev2 ''body'' = Some (JStr text2)"
      and "json_loads L text2 = Some (JObj b2)"
      and "\<forall>f\<in>set cart_required_fields. map_of b1 f \<noteq> None"
      and "\<forall>f\<in>set cart_required_fields. map_of b2 f \<noteq> None"
      and "\<exists>p n. map_of b1 ''price_cents'' = Some p \<and> as_number p = Some n \<and> \<not> num_less n 0"
      and "\<exists>p n. map_of b2 ''price_cents'' = Some p \<and> as_number p = Some n \<and> \<not> num_less n 0"
      and "map_of b1 ''retailer'' = Some retailer"
      and "map_of b1 ''productId'' = Some product_id"
      and "map_of b2 ''retailer'' = Some retailer"
      and "map_of b2 ''productId'' = Some product_id"
      and "store_fault E1 0 = None"
      and "store_fault E2 0 = None"
  shows "\<exists>item1 item2.
           run s (snd (cart_post_handler L E1 ev1)) CartItems
             [Some user_id, Some (JStr (format_value L retailer @ ''#'' @ format_value L product_id))] =
             Some item1 \<and>
           run (run s (snd (cart_post_handler L E1 ev1))) (snd (cart_post_handler L E2 ev2)) CartItems
             [Some user_id, Some (JStr (format_value L retailer @ ''#'' @ format_value L product_id))] =
             Some item2 \<and>
           map_of item1 ''addedAt'' \<noteq> None \<and>
           (s CartItems
              [Some user_id, Some (JStr (format_value L retailer @ ''#'' @ format_value L product_id))] =
              None \<longrightarrow>
            map_of item1 ''addedAt'' = Some (JStr (now E1 0))) \<and>
           map_of item2 ''addedAt'' = map_of item1 ''addedAt'' \<and>
           map_of item2 ''updatedAt'' = Some (JStr (now E2 0)) \<and>
           (\<forall>f\<in>set cart_required_fields. map_of item2 f = map_of b2 f)"
proof -
  let ?ik = "format_value L retailer @ ''#'' @ format_value L product_id"
  let ?k = "[Some user_id, Some (JStr ?ik)]"
  from assms(7) obtain a1 a2 a3 a4 a5 a6 a7 a8 a9 a10 where
    a: "map_of b1 ''retailer'' = Some a1" "map_of b1 ''productId'' = Some a2"
       "map_of b1 ''title'' = Some a3" "map_of b1 ''price_cents'' = Some a4"
       "map_of b1 ''currency'' = Some a5" "map_of b1 ''productUrl'' = Some a6"
       "map_of b1 ''imageUrl'' = Some a7" "map_of b1 ''selectedSize'' = Some a8"
       "map_of b1 ''color'' = Some a9" "map_of b1 ''category'' = Some a10"
    by (rule cart_fields_values)
  from assms(8) obtain c1 c2 c3 c4 c5 c6 c7 c8 c9 c10 where
    c: "map_of b2 ''retailer'' = Some c1" "map_of b2 ''productId'' = Some c2"
       "map_of b2 ''title'' = Some c3" "map_of b2 ''price_cents'' = Some c4"
       "map_of b2 ''currency'' = Some c5" "map_of b2 ''productUrl'' = Some c6"
       "map_of b2 ''imageUrl'' = Some c7" "map_of b2 ''selectedSize'' = Some c8"
       "map_of b2 ''color'' = Some c9" "map_of b2 ''category'' = Some c10"
    by (rule cart_fields_values)
  from a(1,2) assms(11,12) have a12: "a1 = retailer" "a2 = product_id"
    by simp_all
  from c(1,2) assms(13,14) have c12: "c1 = retailer" "c2 = product_id"
    by simp_all
  from assms(9) a(4) have pa: "\<not> invalid_price a4"
    by (auto simp: invalid_price_def)
  from assms(10) c(4) have pc: "\<not> invalid_price c4"
    by (auto simp: invalid_price_def)
  define s1 where "s1 = run s (snd (cart_post_handler L E1 ev1))"
  define s2 where "s2 = run s1 (snd (cart_post_handler L E2 ev2))"
  have w1: "snd (cart_post_handler L E1 ev1) =
            [UpdateItem CartItems [(''user_id'', user_id), (''item_key'', JStr ?ik)]
               [(''retailer'', Val a1), (''productId'', Val a2), (''title'', Val a3),
                (''price_cents'', Val a4), (''currency'', Val a5), (''productUrl'', Val a6),
                (''imageUrl'', Val a7), (''selectedSize'', Val a8), (''color'', Val a9),
                (''category'', Val a10),
                (''updatedAt'', Val (JStr (now E1 0))),
                (''addedAt'', IfNotExists ''addedAt'' (JStr (now E1 0)))]]"
    unfolding cart_accepted [OF assms(1-3) a pa assms(15)] a12 by (rule snd_conv)
  have w2: "snd (cart_post_handler L E2 ev2) =
            [UpdateItem CartItems [(''user_id'', user_id), (''item_key'', JStr ?ik)]
               [(''retailer'', Val c1), (''productId'', Val c2), (''title'', Val c3),
                (''price_cents'', Val c4), (''currency'', Val c5), (''productUrl'', Val c6),
                (''imageUrl'', Val c7), (''selectedSize'', Val c8), (''color'', Val c9),
                (''category'', Val c10),
                (''updatedAt'', Val (JStr (now E2 0))),
                (''addedAt'', IfNotExists ''addedAt'' (JStr (now E2 0)))]]"
    unfolding cart_accepted [OF assms(4-6) c pc assms(16)] c12 by (rule snd_conv)
  from cart_update_store [of s user_id ?ik a1 a2 a3 a4 a5 a6 a7 a8 a9 a10 "now E1 0"]
  obtain item1 where
    i1: "s1 CartItems ?k = Some item1" and
    d1: "map_of item1 ''addedAt'' =
           Some (case s CartItems ?k of
                   None \<Rightarrow> JStr (now E1 0)
                 | Some old \<Rightarrow>
                     (case map_of old ''addedAt'' of None \<Rightarrow> JStr (now E1 0) | Some x \<Rightarrow> x))"
    unfolding s1_def w1 by (elim exE conjE)
  from cart_update_store [of s1 user_id ?ik c1 c2 c3 c4 c5 c6 c7 c8 c9 c10 "now E2 0"]
  obtain item2 where
    i2: "s2 CartItems ?k = Some item2" and
    d2: "map_of item2 ''addedAt'' =
           Some (case s1 CartItems ?k of
                   None \<Rightarrow> JStr (now E2 0)
                 | Some old \<Rightarrow>
                     (case map_of old ''addedAt'' of None \<Rightarrow> JStr (now E2 0) | Some x \<Rightarrow> x))" and
    u2: "map_of item2 ''updatedAt'' = Some (JStr (now E2 0))" and
    f2: "map_of item2 ''retailer'' = Some c1" "map_of item2 ''productId'' = Some c2"
        "map_of item2 ''title'' = Some c3" "map_of item2 ''price_cents'' = Some c4"
        "map_of item2 ''currency'' = Some c5" "map_of item2 ''productUrl'' = Some c6"
        "map_of item2 ''imageUrl'' = Some c7" "map_of item2 ''selectedSize'' = Some c8"
        "map_of item2 ''color'' = Some c9" "map_of item2 ''category'' = Some c10"
    unfolding s2_def w2 by (elim exE conjE)
  from d1 have n1: "map_of item1 ''addedAt'' \<noteq> None"
    by simp
  from d1 have e1: "s CartItems ?k = None \<longrightarrow> map_of item1 ''addedAt'' = Some (JStr (now E1 0))"
    by simp
  from d2 i1 n1 have k2: "map_of item2 ''addedAt'' = map_of item1 ''addedAt''"
    by auto
  from f2 c have g2: "\<forall>f\<in>set cart_required_fields. map_of item2 f = map_of b2 f"
    by (simp add: cart_required_fields_def)
  from i1 i2 n1 e1 k2 u2 g2 show ?thesis
    unfolding s1_def s2_def by (intro exI [of _ item1] exI [of _ item2] conjI)
qed

lemma cart_bodies_differ:
  "json_dumps sample_lib (cart_body 1999) \<noteq> json_dumps sample_lib (cart_body 1499)"
  by code_simp

theorem cart_upsert_keeps_added_at_witness:
  "get_user_id (post_event ''/cart'' ''user-a'' (cart_body 1999)) = Inr (JStr ''user-a'') \<and>
   get_user_id (post_event ''/cart'' ''user-a'' (cart_body 1499)) = Inr (JStr ''user-a'') \<and>
   json_loads (lib_for_two (cart_body 1999) (cart_body 1499))
     (json_dumps sample_lib (cart_body 1999)) = Some (cart_body 1999) \<and>
   json_loads (lib_for_two (cart_body 1999) (cart_body 1499))
     (json_dumps sample_lib (cart_body 1499)) = Some (cart_body 1499) \<and>
   store_fault (sample_env (\<lambda>k. None)) 0 = None \<and> store_fault later_env 0 = None \<and>
   (\<exists>item1 item2.
      run empty_store
        (snd (cart_post_handler (lib_for_two (cart_body 1999) (cart_body 1499))
                (sample_env (\<lambda>k. None)) (post_event ''/cart'' ''user-a'' (cart_body 1999))))
        CartItems [Some (JStr ''user-a''), Some (JStr ''acme#p1'')] = Some item1 \<and>
      run (run empty_store
             (snd (cart_post_handler (lib_for_two (cart_body 1999) (cart_body 1499))
                     (sample_env (\<lambda>k. None)) (post_event ''/cart'' ''user-a'' (cart_body 1999)))))
        (snd (cart_post_handler (lib_for_two (cart_body 1999) (cart_body 1499))
                later_env (post_event ''/cart'' ''user-a'' (cart_body 1499))))
        CartItems [Some (JStr ''user-a''), Some (JStr ''acme#p1'')] = Some item2 \<and>
      map_of item1 ''addedAt'' = Some (JStr ''2025-10-18T12:00:00+00:00'') \<and>
      map_of item2 ''addedAt'' = Some (JStr ''2025-10-18T12:00:00+00:00'') \<and>
      map_of item2 ''updatedAt'' = Some (JStr ''2025-10-18T13:30:00+00:00'') \<and>
      map_of item2 ''price_cents'' = Some (JInt 1499))"
proof -
  let ?L = "lib_for_two (cart_body 1999) (cart_body 1499)"
  let ?E1 = "sample_env (\<lambda>k. None)"
  let ?ev1 = "post_event ''/cart'' ''user-a'' (cart_body 1999)"
  let ?ev2 = "post_event ''/cart'' ''user-a'' (cart_body 1499)"
  let ?b = "\<lambda>price. [(''retailer'', JStr ''acme''), (''productId'', JStr ''p1''),
           (''title'', JStr ''Linen shirt''), (''price_cents'', JInt price),
           (''currency'', JStr ''USD''), (''productUrl'', JStr ''https://acme.example/p1''),
           (''imageUrl'', JStr ''https://acme.example/p1.jpg''), (''selectedSize'', JStr ''M''),
           (''color'', JStr ''blue''), (''category'', JStr ''tops'')]"
  let ?k = "[Some (JStr ''user-a''), Some (JStr ''acme#p1'')]"
  have u: "get_user_id ?ev1 = Inr (JStr ''user-a'')" "get_user_id ?ev2 = Inr (JStr ''user-a'')"
    by simp_all
  have t: "map_of ?ev1 ''body'' = Some (JStr (json_dumps sample_lib (cart_body 1999)))"
          "map_of ?ev2 ''body'' = Some (JStr (json_dumps sample_lib (cart_body 1499)))"
    by simp_all
  have l1: "json_loads ?L (json_dumps sample_lib (cart_body 1999)) = Some (cart_body 1999)"
    by (simp add: lib_for_two_def)
  have l2: "json_loads ?L (json_dumps sample_lib (cart_body 1499)) = Some (cart_body 1499)"
    using cart_bodies_differ by (simp add: lib_for_two_def)
  have m1: "json_loads ?L (json_dumps sample_lib (cart_body 1999)) = Some (JObj (?b 1999))"
    using l1 by (simp only: cart_body_def)
  have m2: "json_loads ?L (json_dumps sample_lib (cart_body 1499)) = Some (JObj (?b 1499))"
    using l2 by (simp only: cart_body_def)
  have q: "store_fault ?E1 0 = None" "store_fault later_env 0 = None"
    by (simp_all add: sample_env_def later_env_def)
  have n: "now ?E1 0 = ''2025-10-18T12:00:00+00:00''" "now later_env 0 = ''2025-10-18T13:30:00+00:00''"
    by (simp_all add: sample_env_def later_env_def decimal_digit_def)
  have p: "\<forall>f\<in>set cart_required_fields. map_of (?b 1999) f \<noteq> None"
          "\<forall>f\<in>set cart_required_fields. map_of (?b 1499) f \<noteq> None"
    by (simp_all add: cart_required_fields_def)
  have v: "\<exists>p n. map_of (?b 1999) ''price_cents'' = Some p \<and> as_number p = Some n \<and> \<not> num_less n 0"
          "\<exists>p n. map_of (?b 1499) ''price_cents'' = Some p \<and> as_number p = Some n \<and> \<not> num_less n 0"
    by simp_all
  have r: "map_of (?b 1999) ''retailer'' = Some (JStr ''acme'')"
          "map_of (?b 1999) ''productId'' = Some (JStr ''p1'')"
          "map_of (?b 1499) ''retailer'' = Some (JStr ''acme'')"
          "map_of (?b 1499) ''productId'' = Some (JStr ''p1'')"
    by simp_all
  have k: "format_value ?L (JStr ''acme'') @ ''#'' @ format_value ?L (JStr ''p1'') = ''acme#p1''"
    by simp
  have e: "empty_store CartItems ?k = None"
    by (simp add: empty_store_def)
  from cart_upsert_keeps_added_at
         [OF u(1) t(1) m1 u(2) t(2) m2 p v r q, of empty_store]
  obtain item1 item2 where
    i1: "run empty_store (snd (cart_post_handler ?L ?E1 ?ev1)) CartItems ?k = Some item1" and
    i2: "run (run empty_store (snd (cart_post_handler ?L ?E1 ?ev1)))
           (snd (cart_post_handler ?L later_env ?ev2)) CartItems ?k = Some item2" and
    f: "empty_store CartItems ?k = None \<longrightarrow> map_of item1 ''addedAt'' = Some (JStr (now ?E1 0))" and
    s: "map_of item2 ''addedAt'' = map_of item1 ''addedAt''" and
    d: "map_of item2 ''updatedAt'' = Some (JStr (now later_env 0))" and
    g: "\<forall>f\<in>set cart_required_fields. map_of item2 f = map_of (?b 1499) f"
    unfolding k by (elim exE conjE)
  from f e n have a1: "map_of item1 ''addedAt'' = Some (JStr ''2025-10-18T12:00:00+00:00'')"
    by simp
  with s have a2: "map_of item2 ''addedAt'' = Some (JStr ''2025-10-18T12:00:00+00:00'')"
    by simp
  from d n have d2: "map_of item2 ''updatedAt'' = Some (JStr ''2025-10-18T13:30:00+00:00'')"
    by simp
  from g have p2: "map_of item2 ''price_cents'' = Some (JInt 1499)"
    by (simp add: cart_required_fields_def)
  from i1 i2 a1 a2 d2 p2 have "\<exists>item1 item2.
      run empty_store (snd (cart_post_handler ?L ?E1 ?ev1)) CartItems ?k = Some item1 \<and>
      run (run empty_store (snd (cart_post_handler ?L ?E1 ?ev1)))
        (snd (cart_post_handler ?L later_env ?ev2)) CartItems ?k = Some item2 \<and>
      map_of item1 ''addedAt'' = Some (JStr ''2025-10-18T12:00:00+00:00'') \<and>
      map_of item2 ''addedAt'' = Some (JStr ''2025-10-18T12:00:00+00:00'') \<and>
      map_of item2 ''updatedAt'' = Some (JStr ''2025-10-18T13:30:00+00:00'') \<and>
      map_of item2 ''price_cents'' = Some (JInt 1499)"
    by (intro exI [of _ item1] exI [of _ item2] conjI)
  with u l1 l2 q show ?thesis
    by (intro conjI)
qed

subsection \<open>The fit job: outcome of synchronous generation\<close>

lemma fit_create_composite:
  assumes "fit_prepare L E event = Inr (Inr (user_id, JStr ''MVP_COMPOSITE'', fd))"
      and "store_fault E 0 = None"
  shows "store_fault E 1 = None \<Longrightarrow>
           fit_create_handler L E event =
             (create_response L 201
                (JObj [(''fitId'', JStr (uuid4 E)), (''status'', JStr ''READY'')]) None,
              [PutItem Fits fd,
               UpdateItem Fits [(''fitId'', JStr (uuid4 E))]
                 [(''status'', Val (JStr ''READY'')),
                  (''imageUrl'', Val (JStr (''generated/'' @ format_value L user_id @ ''/'' @
                                           uuid4 E @ ''.jpg''))),
                  (''updatedAt'', Val (JStr (now E 2)))]])"
    and "store_fault E 1 \<noteq> None \<Longrightarrow> store_fault E 2 = None \<Longrightarrow>
           fit_create_handler L E event =
             (create_error_response L 500 ''GENERATION_FAILED'' ''Failed to generate fit'' None,
              [PutItem Fits fd,
               UpdateItem Fits [(''fitId'', JStr (uuid4 E))]
                 [(''status'', Val (JStr ''FAILED'')),
                  (''updatedAt'', Val (JStr (now E 3)))]])"
    and "store_fault E 1 \<noteq> None \<Longrightarrow> store_fault E 2 = Some e \<Longrightarrow>
           fit_create_handler L E event =
             (handle_exception L ''DYNAMODB_ERROR'' ''Failed to create fit job'' e,
              [PutItem Fits fd])"
  using assms by (auto simp: fit_create_handler_def Let_def)

lemma put_then_ready:
  assumes "map_of fd ''fitId'' = Some (JStr fid)"
  shows "\<exists>item. run s [PutItem Fits fd,
                        UpdateItem Fits [(''fitId'', JStr fid)]
                          [(''status'', Val (JStr ''READY'')), (''imageUrl'', Val (JStr k)),
                           (''updatedAt'', Val (JStr ts))]] Fits [Some (JStr fid)] = Some item \<and>
                map_of item ''status'' = Some (JStr ''READY'') \<and>
                map_of item ''imageUrl'' = Some (JStr k)"
  using assms
  by (simp add: run_def put_item_def update_item_def key_of_def Let_def assign_all_def update_conv')

lemma put_then_failed:
  assumes "map_of fd ''fitId'' = Some (JStr fid)"
  shows "\<exists>item. run s [PutItem Fits fd,
                        UpdateItem Fits [(''fitId'', JStr fid)]
                          [(''status'', Val (JStr ''FAILED'')),
                           (''updatedAt'', Val (JStr ts))]] Fits [Some (JStr fid)] = Some item \<and>
                map_of item ''status'' = Some (JStr ''FAILED'') \<and>
                map_of item ''imageUrl'' = map_of fd ''imageUrl''"
  using assms
  by (simp add: run_def put_item_def update_item_def key_of_def Let_def assign_all_def update_conv')

lemma put_only:
  assumes "map_of fd ''fitId'' = Some (JStr fid)"
  shows "run s [PutItem Fits fd] Fits [Some (JStr fid)] = Some fd"
  using assms by (simp add: run_def put_item_def key_of_def)




subsection \<open>The fit job: a one-directional status\<close>

lemma one_directional_same:
  assumes "s' Fits = s Fits"
  shows "one_directional s s'"
  using assms by (auto simp: one_directional_def image_key_iff_ready_def)

lemma one_directional_put:
  assumes "map_of fd ''fitId'' = Some (JStr fid)"
      and "map_of fd ''status'' = Some (JStr ''PENDING'')"
      and "map_of fd ''imageUrl'' = None"
      and "s Fits [Some (JStr fid)] = None"
  shows "one_directional s (put_item Fits fd s)"
  using assms
  by (auto simp: one_directional_def image_key_iff_ready_def put_item_def key_of_def)

lemma one_directional_ready:
  assumes "s Fits [Some (JStr fid)] = Some fd"
      and "map_of fd ''status'' = Some (JStr ''PENDING'')"
  shows "one_directional s
           (update_item Fits [(''fitId'', JStr fid)]
              [(''status'', Val (JStr ''READY'')), (''imageUrl'', Val (JStr k)),
               (''updatedAt'', Val (JStr ts))] s)"
  using assms
  by (auto simp: one_directional_def image_key_iff_ready_def update_item_def key_of_def
      Let_def assign_all_def update_conv' terminal_def)

lemma one_directional_failed:
  assumes "s Fits [Some (JStr fid)] = Some fd"
      and "map_of fd ''status'' = Some (JStr ''PENDING'')"
      and "map_of fd ''imageUrl'' = None"
  shows "one_directional s
           (update_item Fits [(''fitId'', JStr fid)]
              [(''status'', Val (JStr ''FAILED'')), (''updatedAt'', Val (JStr ts))] s)"
  using assms
  by (auto simp: one_directional_def image_key_iff_ready_def update_item_def key_of_def
      Let_def assign_all_def update_conv' terminal_def)

lemma one_directional_then:
  assumes "one_directional s s1" and "one_directional s1 s2"
  shows "(\<forall>k item. s Fits k = Some item \<and> terminal item \<longrightarrow> s2 Fits k = Some item) \<and>
         (image_key_iff_ready s \<longrightarrow> image_key_iff_ready s2)"
  using assms unfolding one_directional_def by metis

lemma profile_writes:
  "snd (profile_handler L E event) = [] \<or>
   (\<exists>pd. snd (profile_handler L E event) = [PutItem Profiles pd])"
  by (simp add: profile_handler_def split: sum.split option.split)

lemma cart_writes:
  "snd (cart_post_handler L E event) = [] \<or>
   (\<exists>k a. snd (cart_post_handler L E event) = [UpdateItem CartItems k a])"
  by (simp add: cart_post_handler_def split: sum.split option.split prod.split)

lemma fit_writes:
  "snd (fit_create_handler L E event) = [] \<or>
   (\<exists>fd. map_of fd ''fitId'' = Some (JStr (uuid4 E)) \<and>
         map_of fd ''status'' = Some (JStr ''PENDING'') \<and>
         map_of fd ''imageUrl'' = None \<and>
         (snd (fit_create_handler L E event) = [PutItem Fits fd] \<or>
          (\<exists>k ts. snd (fit_create_handler L E event) =
             [PutItem Fits fd,
              UpdateItem Fits [(''fitId'', JStr (uuid4 E))]
                [(''status'', Val (JStr ''READY'')), (''imageUrl'', Val (JStr k)),
                 (''updatedAt'', Val (JStr ts))]]) \<or>
          (\<exists>ts. snd (fit_create_handler L E event) =
             [PutItem Fits fd,
              UpdateItem Fits [(''fitId'', JStr (uuid4 E))]
                [(''status'', Val (JStr ''FAILED'')), (''updatedAt'', Val (JStr ts))]])))"
proof (cases "fit_prepare L E event")
  case (Inl e)
  then show ?thesis by (simp add: fit_create_handler_def)
next
  case (Inr x)
  show ?thesis
  proof (cases x)
    case (Inl r)
    with Inr show ?thesis by (simp add: fit_create_handler_def)
  next
    case (Inr y)
    obtain u m fd where y: "y = (u, m, fd)"
      by (cases y)
    with \<open>fit_prepare L E event = Inr x\<close> Inr
    have p: "fit_prepare L E event = Inr (Inr (u, m, fd))"
      by simp
    from fit_prepare_continue [OF p]
    have i: "map_of fd ''fitId'' = Some (JStr (uuid4 E))"
      and st: "map_of fd ''status'' = Some (JStr ''PENDING'')"
      and im: "map_of fd ''imageUrl'' = None"
      by simp_all
    have "snd (fit_create_handler L E event) = [] \<or>
          (snd (fit_create_handler L E event) = [PutItem Fits fd] \<or>
          (\<exists>k ts. snd (fit_create_handler L E event) =
             [PutItem Fits fd,
              UpdateItem Fits [(''fitId'', JStr (uuid4 E))]
                [(''status'', Val (JStr ''READY'')), (''imageUrl'', Val (JStr k)),
                 (''updatedAt'', Val (JStr ts))]]) \<or>
          (\<exists>ts. snd (fit_create_handler L E event) =
             [PutItem Fits fd,
              UpdateItem Fits [(''fitId'', JStr (uuid4 E))]
                [(''status'', Val (JStr ''FAILED'')), (''updatedAt'', Val (JStr ts))]]))"
      by (simp add: fit_create_handler_def p Let_def split: option.split)
    then show ?thesis
    proof
      assume "snd (fit_create_handler L E event) = []"
      then show ?thesis by (rule disjI1)
    next
      assume "snd (fit_create_handler L E event) = [PutItem Fits fd] \<or>
          (\<exists>k ts. snd (fit_create_handler L E event) =
             [PutItem Fits fd,
              UpdateItem Fits [(''fitId'', JStr (uuid4 E))]
                [(''status'', Val (JStr ''READY'')), (''imageUrl'', Val (JStr k)),
                 (''updatedAt'', Val (JStr ts))]]) \<or>
          (\<exists>ts. snd (fit_create_handler L E event) =
             [PutItem Fits fd,
              UpdateItem Fits [(''fitId'', JStr (uuid4 E))]
                [(''status'', Val (JStr ''FAILED'')), (''updatedAt'', Val (JStr ts))]])"
      with i st im
      have "map_of fd ''fitId'' = Some (JStr (uuid4 E)) \<and>
         map_of fd ''status'' = Some (JStr ''PENDING'') \<and>
         map_of fd ''imageUrl'' = None \<and>
         (snd (fit_create_handler L E event) = [PutItem Fits fd] \<or>
          (\<exists>k ts. snd (fit_create_handler L E event) =
             [PutItem Fits fd,
              UpdateItem Fits [(''fitId'', JStr (uuid4 E))]
                [(''status'', Val (JStr ''READY'')), (''imageUrl'', Val (JStr k)),
                 (''updatedAt'', Val (JStr ts))]]) \<or>
          (\<exists>ts. snd (fit_create_handler L E event) =
             [PutItem Fits fd,
              UpdateItem Fits [(''fitId'', JStr (uuid4 E))]
                [(''status'', Val (JStr ''FAILED'')), (''updatedAt'', Val (JStr ts))]]))"
        by (intro conjI)
      then have "\<exists>fd. map_of fd ''fitId'' = Some (JStr (uuid4 E)) \<and>
         map_of fd ''status'' = Some (JStr ''PENDING'') \<and>
         map_of fd ''imageUrl'' = None \<and>
         (snd (fit_create_handler L E event) = [PutItem Fits fd] \<or>
          (\<exists>k ts. snd (fit_create_handler L E event) =
             [PutItem Fits fd,
              UpdateItem Fits [(''fitId'', JStr (uuid4 E))]
                [(''status'', Val (JStr ''READY'')), (''imageUrl'', Val (JStr k)),
                 (''updatedAt'', Val (JStr ts))]]) \<or>
          (\<exists>ts. snd (fit_create_handler L E event) =
             [PutItem Fits fd,
              UpdateItem Fits [(''fitId'', JStr (uuid4 E))]
                [(''status'', Val (JStr ''FAILED'')), (''updatedAt'', Val (JStr ts))]]))"
        by (rule exI [of _ fd])
      then show ?thesis by (rule disjI2)
    qed
  qed
qed

lemma lambda_writes:
  "snd (lambda_handler L E event s) = [] \<or>
   snd (lambda_handler L E event s) = snd (profile_handler L E event) \<or>
   snd (lambda_handler L E event s) = snd (cart_post_handler L E event) \<or>
   snd (lambda_handler L E event s) = snd (fit_create_handler L E event)"
  by (simp add: lambda_handler_def split: sum.split)

lemma no_writes: "writes_one_directional s []"
  by (simp add: writes_one_directional_def run_def)

lemma single_write:
  assumes "one_directional s (apply_write w s)"
  shows "writes_one_directional s [w]"
  using assms
  by (simp add: writes_one_directional_def run_def) (simp add: one_directional_def)

lemma two_writes:
  assumes "one_directional s (apply_write w1 s)"
      and "one_directional (apply_write w1 s) (apply_write w2 (apply_write w1 s))"
  shows "writes_one_directional s [w1, w2]"
proof -
  have "\<forall>i<length [w1, w2]. one_directional (run s (take i [w1, w2])) (run s (take (Suc i) [w1, w2]))"
  proof (intro allI impI)
    fix i assume "i < length [w1, w2]"
    then have "i = 0 \<or> i = Suc 0"
      by auto
    then show "one_directional (run s (take i [w1, w2])) (run s (take (Suc i) [w1, w2]))"
      using assms by (auto simp: run_def)
  qed
  moreover from one_directional_then [OF assms]
  have "(\<forall>k item. s Fits k = Some item \<and> terminal item \<longrightarrow> run s [w1, w2] Fits k = Some item) \<and>
        (image_key_iff_ready s \<longrightarrow> image_key_iff_ready (run s [w1, w2]))"
    by (simp add: run_def)
  ultimately show ?thesis
    unfolding writes_one_directional_def by (intro conjI) (elim conjE, assumption)+
qed

text \<open>
  C1. For every request the router handles, given that the UUID it draws is not yet the id
  of a fit record: every write of the request is a one-directional step of the store. A fit
  record that a write creates is PENDING and has no image key; a record that is READY or
  FAILED is left exactly as it is by every write, hence by the request; and if image keys
  were held exactly by the READY records before a write, they are so after it. Since READY
  is never left, a record has an image key if and only if it is (or ever was) READY.
\<close>

theorem fit_status_one_directional:
  assumes "s Fits [Some (JStr (uuid4 E))] = None"
  shows "writes_one_directional s (snd (lambda_handler L E event s))"
proof -
  have profile: "writes_one_directional s (snd (profile_handler L E event))"
  proof -
    from profile_writes [of L E event] show ?thesis
    proof
      assume "snd (profile_handler L E event) = []"
      then show ?thesis by (simp only: no_writes)
    next
      assume "\<exists>pd. snd (profile_handler L E event) = [PutItem Profiles pd]"
      then obtain pd where w: "snd (profile_handler L E event) = [PutItem Profiles pd]"
        ..
      have "apply_write (PutItem Profiles pd) s Fits = s Fits"
        by (simp add: put_item_def)
      then have "one_directional s (apply_write (PutItem Profiles pd) s)"
        by (rule one_directional_same)
      then show ?thesis unfolding w by (rule single_write)
    qed
  qed
  have cart: "writes_one_directional s (snd (cart_post_handler L E event))"
  proof -
    from cart_writes [of L E event] show ?thesis
    proof
      assume "snd (cart_post_handler L E event) = []"
      then show ?thesis by (simp only: no_writes)
    next
      assume "\<exists>k a. snd (cart_post_handler L E event) = [UpdateItem CartItems k a]"
      then obtain k a where w: "snd (cart_post_handler L E event) = [UpdateItem CartItems k a]"
        by (elim exE)
      have "apply_write (UpdateItem CartItems k a) s Fits = s Fits"
        by (simp add: update_item_def Let_def)
      then have "one_directional s (apply_write (UpdateItem CartItems k a) s)"
        by (rule one_directional_same)
      then show ?thesis unfolding w by (rule single_write)
    qed
  qed
  have fit: "writes_one_directional s (snd (fit_create_handler L E event))"
  proof -
    from fit_writes [of L E event] show ?thesis
    proof
      assume "snd (fit_create_handler L E event) = []"
      then show ?thesis by (simp only: no_writes)
    next
      assume "\<exists>fd. map_of fd ''fitId'' = Some (JStr (uuid4 E)) \<and>
         map_of fd ''status'' = Some (JStr ''PENDING'') \<and>
         map_of fd ''imageUrl'' = None \<and>
         (snd (fit_create_handler L E event) = [PutItem Fits fd] \<or>
          (\<exists>k ts. snd (fit_create_handler L E event) =
             [PutItem Fits fd,
              UpdateItem Fits [(''fitId'', JStr (uuid4 E))]
                [(''status'', Val (JStr ''READY'')), (''imageUrl'', Val (JStr k)),
                 (''updatedAt'', Val (JStr ts))]]) \<or>
          (\<exists>ts. snd (fit_create_handler L E event) =
             [PutItem Fits fd,
              UpdateItem Fits [(''fitId'', JStr (uuid4 E))]
                [(''status'', Val (JStr ''FAILED'')), (''updatedAt'', Val (JStr ts))]]))"
      then obtain fd where
        i: "map_of fd ''fitId'' = Some (JStr (uuid4 E))" and
        st: "map_of fd ''status'' = Some (JStr ''PENDING'')" and
        im: "map_of fd ''imageUrl'' = None" and
        d: "snd (fit_create_handler L E event) = [PutItem Fits fd] \<or>
          (\<exists>k ts. snd (fit_create_handler L E event) =
             [PutItem Fits fd,
              UpdateItem Fits [(''fitId'', JStr (uuid4 E))]
                [(''status'', Val (JStr ''READY'')), (''imageUrl'', Val (JStr k)),
                 (''updatedAt'', Val (JStr ts))]]) \<or>
          (\<exists>ts. snd (fit_create_handler L E event) =
             [PutItem Fits fd,
              UpdateItem Fits [(''fitId'', JStr (uuid4 E))]
                [(''status'', Val (JStr ''FAILED'')), (''updatedAt'', Val (JStr ts))]])"
        by (elim exE conjE)
      from i st im assms have put: "one_directional s (apply_write (PutItem Fits fd) s)"
        unfolding apply_write.simps by (rule one_directional_put)
      from i have here: "apply_write (PutItem Fits fd) s Fits [Some (JStr (uuid4 E))] = Some fd"
        by (simp add: put_item_def key_of_def)
      from d show ?thesis
      proof (elim disjE exE)
        assume w: "snd (fit_create_handler L E event) = [PutItem Fits fd]"
        from put show ?thesis unfolding w by (rule single_write)
      next
        fix k ts
        assume w: "snd (fit_create_handler L E event) =
             [PutItem Fits fd,
              UpdateItem Fits [(''fitId'', JStr (uuid4 E))]
                [(''status'', Val (JStr ''READY'')), (''imageUrl'', Val (JStr k)),
                 (''updatedAt'', Val (JStr ts))]]"
        from here st
        have "one_directional (apply_write (PutItem Fits fd) s)
                (apply_write (UpdateItem Fits [(''fitId'', JStr (uuid4 E))]
                   [(''status'', Val (JStr ''READY'')), (''imageUrl'', Val (JStr k)),
                    (''updatedAt'', Val (JStr ts))]) (apply_write (PutItem Fits fd) s))"
          unfolding apply_write.simps(2) by (rule one_directional_ready)
        with put show ?thesis unfolding w by (rule two_writes)
      next
        fix ts
        assume w: "snd (fit_create_handler L E event) =
             [PutItem Fits fd,
              UpdateItem Fits [(''fitId'', JStr (uuid4 E))]
                [(''status'', Val (JStr ''FAILED'')), (''updatedAt'', Val (JStr ts))]]"
        from here st im
        have "one_directional (apply_write (PutItem Fits fd) s)
                (apply_write (UpdateItem Fits [(''fitId'', JStr (uuid4 E))]
                   [(''status'', Val (JStr ''FAILED'')), (''updatedAt'', Val (JStr ts))])
                   (apply_write (PutItem Fits fd) s))"
          unfolding apply_write.simps(2) by (rule one_directional_failed)
        with put show ?thesis unfolding w by (rule two_writes)
      qed
    qed
  qed
  from lambda_writes [of L E event s] show ?thesis
  proof (elim disjE)
    assume "snd (lambda_handler L E event s) = []"
    then show ?thesis by (simp only: no_writes)
  next
    assume "snd (lambda_handler L E event s) = snd (profile_handler L E event)"
    with profile show ?thesis by (simp only:)
  next
    assume "snd (lambda_handler L E event s) = snd (cart_post_handler L E event)"
    with cart show ?thesis by (simp only:)
  next
    assume "snd (lambda_handler L E event s) = snd (fit_create_handler L E event)"
    with fit show ?thesis by (simp only:)
  qed
qed

theorem fit_status_one_directional_witness:
  "put_item Fits ready_fit empty_store Fits
     [Some (JStr (uuid4 (sample_env (\<lambda>k. None))))] = None \<and>
   put_item Fits ready_fit empty_store Fits [Some (JStr ''fit-1'')] = Some ready_fit \<and>
   terminal ready_fit \<and>
   writes_one_directional (put_item Fits ready_fit empty_store)
     (snd (lambda_handler (lib_for composite_one_item) (sample_env (\<lambda>k. None))
             (post_event ''/fit'' ''user-a'' composite_one_item)
             (put_item Fits ready_fit empty_store))) \<and>
   run (put_item Fits ready_fit empty_store)
     (snd (lambda_handler (lib_for composite_one_item) (sample_env (\<lambda>k. None))
             (post_event ''/fit'' ''user-a'' composite_one_item)
             (put_item Fits ready_fit empty_store)))
     Fits [Some (JStr ''fit-1'')] = Some ready_fit"
proof -
  let ?s = "put_item Fits ready_fit empty_store"
  let ?E = "sample_env (\<lambda>k. None)"
  let ?ws = "snd (lambda_handler (lib_for composite_one_item) ?E
                    (post_event ''/fit'' ''user-a'' composite_one_item) ?s)"
  have fresh: "?s Fits [Some (JStr (uuid4 ?E))] = None"
    by (simp add: put_item_def key_of_def ready_fit_def empty_store_def sample_env_def)
  have old: "?s Fits [Some (JStr ''fit-1'')] = Some ready_fit"
    by (simp add: put_item_def key_of_def ready_fit_def)
  have tm: "terminal ready_fit"
    by (simp add: terminal_def ready_fit_def)
  have w: "writes_one_directional ?s ?ws"
    using fresh
    by (rule fit_status_one_directional
          [of ?s ?E "lib_for composite_one_item" "post_event ''/fit'' ''user-a'' composite_one_item"])
  then have "\<forall>k item. ?s Fits k = Some item \<and> terminal item \<longrightarrow> run ?s ?ws Fits k = Some item"
    unfolding writes_one_directional_def by (elim conjE)
  then have "?s Fits [Some (JStr ''fit-1'')] = Some ready_fit \<and> terminal ready_fit \<longrightarrow>
             run ?s ?ws Fits [Some (JStr ''fit-1'')] = Some ready_fit"
    by (elim allE)
  with old tm have kept: "run ?s ?ws Fits [Some (JStr ''fit-1'')] = Some ready_fit"
    by simp
  from fresh old tm w kept show ?thesis
    by (intro conjI)
qed

subsection \<open>The cart cursor\<close>

lemma cart_get_with_cursor:
  assumes "get_user_id event = Inr user_id"
      and "map_of event ''queryStringParameters'' = Some (JObj qs)"
      and "map_of qs ''cursor'' = Some cursor"
      and "truthy cursor"
  shows "cart_get_handler L E event =
           (case decode_cursor L cursor of
              Inl e \<Rightarrow> create_error_response L 400 ''INVALID_CURSOR''
                         ''Invalid pagination cursor'' None
            | Inr k \<Rightarrow>
                (case query_cart E user_id (Some k) of
                   Inl e \<Rightarrow> handle_exception L ''DYNAMODB_ERROR''
                              ''Failed to retrieve cart items'' e
                 | Inr (items, last_key) \<Rightarrow>
                     create_response L 200
                       (JObj [(''items'', JArr (case items of Some xs \<Rightarrow> xs | None \<Rightarrow> [])),
                              (''nextCursor'', (case last_key of
                                                  Some k' \<Rightarrow> JStr (encode_cursor L k')
                                                | None \<Rightarrow> JNull))]) None))"
proof -
  from assms(2,4) have q: "query_string_parameters event = JObj qs"
    by (cases qs) (simp_all add: query_string_parameters_def)
  show ?thesis
    using assms(1,3,4)
    by (simp add: cart_get_handler_def q step_defs split: sum.split prod.split)
qed


lemma cart_key_codec:
  "b64encode_str (cursor_lib cart_key) (json_dumps (cursor_lib cart_key) cart_key) =
     ''eyJ1c2VyX2lkIjogInVzZXItYSIsICJpdGVtX2tleSI6ICJhY21lI3AxIn0=''"
  "b64decode_str (cursor_lib cart_key)
     ''eyJ1c2VyX2lkIjogInVzZXItYSIsICJpdGVtX2tleSI6ICJhY21lI3AxIn0='' =
     Inr (json_dumps (cursor_lib cart_key) cart_key)"
  "json_loads (cursor_lib cart_key) (json_dumps (cursor_lib cart_key) cart_key) = Some cart_key"
  "b64decode_str (cursor_lib cart_key) ''not a cursor'' = Inl OtherException"
  by code_simp+



end
